theory Spec2Isabelle
  imports Main "HOL-Library.Word"
begin

unbundle bit_operations_syntax

section \<open>The libusb 1.0 interface as the driver sees it\<close>

text \<open>
  The driver \<^verbatim>\<open>drivers/nut_libusb.c\<close> talks to the USB bus through libusb 1.0, an
  external library. Its status codes are C \<^verbatim>\<open>int\<close>s; the values below are those of
  \<^verbatim>\<open>enum libusb_error\<close> in \<^verbatim>\<open>libusb.h\<close>. Every code the driver handles lies far
  inside the range of a 32-bit \<^verbatim>\<open>int\<close>, so status codes are modelled as \<open>int\<close>.
\<close>

definition LIBUSB_SUCCESS :: int where "LIBUSB_SUCCESS = 0"
definition LIBUSB_ERROR_IO :: int where "LIBUSB_ERROR_IO = - 1"
definition LIBUSB_ERROR_INVALID_PARAM :: int where "LIBUSB_ERROR_INVALID_PARAM = - 2"
definition LIBUSB_ERROR_ACCESS :: int where "LIBUSB_ERROR_ACCESS = - 3"
definition LIBUSB_ERROR_NO_DEVICE :: int where "LIBUSB_ERROR_NO_DEVICE = - 4"
definition LIBUSB_ERROR_NOT_FOUND :: int where "LIBUSB_ERROR_NOT_FOUND = - 5"
definition LIBUSB_ERROR_BUSY :: int where "LIBUSB_ERROR_BUSY = - 6"
definition LIBUSB_ERROR_TIMEOUT :: int where "LIBUSB_ERROR_TIMEOUT = - 7"
definition LIBUSB_ERROR_OVERFLOW :: int where "LIBUSB_ERROR_OVERFLOW = - 8"
definition LIBUSB_ERROR_PIPE :: int where "LIBUSB_ERROR_PIPE = - 9"
definition LIBUSB_ERROR_INTERRUPTED :: int where "LIBUSB_ERROR_INTERRUPTED = - 10"
definition LIBUSB_ERROR_NO_MEM :: int where "LIBUSB_ERROR_NO_MEM = - 11"
definition LIBUSB_ERROR_NOT_SUPPORTED :: int where "LIBUSB_ERROR_NOT_SUPPORTED = - 12"
definition LIBUSB_ERROR_OTHER :: int where "LIBUSB_ERROR_OTHER = - 99"

lemmas libusb_error_defs =
  LIBUSB_SUCCESS_def LIBUSB_ERROR_IO_def LIBUSB_ERROR_INVALID_PARAM_def
  LIBUSB_ERROR_ACCESS_def LIBUSB_ERROR_NO_DEVICE_def LIBUSB_ERROR_NOT_FOUND_def
  LIBUSB_ERROR_BUSY_def LIBUSB_ERROR_TIMEOUT_def LIBUSB_ERROR_OVERFLOW_def
  LIBUSB_ERROR_PIPE_def LIBUSB_ERROR_INTERRUPTED_def LIBUSB_ERROR_NO_MEM_def
  LIBUSB_ERROR_NOT_SUPPORTED_def LIBUSB_ERROR_OTHER_def

text \<open>Request constants of \<^verbatim>\<open>libusb.h\<close> used in the control transfers.\<close>

type_synonym byte = "8 word"
type_synonym u16 = "16 word"

definition LIBUSB_ENDPOINT_IN :: byte where "LIBUSB_ENDPOINT_IN = 0x80"
definition LIBUSB_ENDPOINT_OUT :: byte where "LIBUSB_ENDPOINT_OUT = 0x00"
definition LIBUSB_REQUEST_TYPE_STANDARD :: byte where "LIBUSB_REQUEST_TYPE_STANDARD = 0x00"
definition LIBUSB_REQUEST_TYPE_CLASS :: byte where "LIBUSB_REQUEST_TYPE_CLASS = 0x20"
definition LIBUSB_RECIPIENT_INTERFACE :: byte where "LIBUSB_RECIPIENT_INTERFACE = 0x01"
definition LIBUSB_REQUEST_GET_DESCRIPTOR :: byte where "LIBUSB_REQUEST_GET_DESCRIPTOR = 0x06"
definition LIBUSB_DT_HID :: byte where "LIBUSB_DT_HID = 0x21"
definition LIBUSB_DT_REPORT :: byte where "LIBUSB_DT_REPORT = 0x22"

lemmas libusb_request_defs =
  LIBUSB_ENDPOINT_IN_def LIBUSB_ENDPOINT_OUT_def LIBUSB_REQUEST_TYPE_STANDARD_def
  LIBUSB_REQUEST_TYPE_CLASS_def LIBUSB_RECIPIENT_INTERFACE_def
  LIBUSB_REQUEST_GET_DESCRIPTOR_def LIBUSB_DT_HID_def LIBUSB_DT_REPORT_def

text \<open>\<^verbatim>\<open>#define MAX_REPORT_SIZE 0x1800\<close> and \<^verbatim>\<open>static const int usb_if_num = 0\<close>.\<close>

definition MAX_REPORT_SIZE :: nat where "MAX_REPORT_SIZE = 0x1800"
definition usb_if_num :: int where "usb_if_num = 0"

text \<open>
  A \<^verbatim>\<open>libusb_device_handle *\<close> is an opaque pointer: \<open>None\<close> is \<^verbatim>\<open>NULL\<close>, \<open>Some h\<close> a
  handle that libusb gave out.
\<close>

type_synonym handle = nat

subsection \<open>The caller's device record\<close>

text \<open>
  \<^verbatim>\<open>USBDevice_t\<close> is declared in a header outside the two source files; the record has
  the fields \<^verbatim>\<open>nut_libusb_open\<close> reads and writes. A \<^verbatim>\<open>char *\<close> field is \<open>None\<close> when
  \<^verbatim>\<open>NULL\<close> and \<open>Some s\<close> when it points to a heap copy of \<open>s\<close>.
\<close>

record USBDevice_t =
  VendorID :: u16
  ProductID :: u16
  Vendor :: "string option"
  Product :: "string option"
  Serial :: "string option"
  Bus :: "string option"
  bcdDevice :: u16

text \<open>The record after \<^verbatim>\<open>memset(curDevice, '\0', sizeof(*curDevice))\<close>.\<close>

definition USBDevice_zero :: USBDevice_t where
  "USBDevice_zero =
     \<lparr>VendorID = 0, ProductID = 0, Vendor = None, Product = None, Serial = None,
      Bus = None, bcdDevice = 0\<rparr>"

subsection \<open>Observable events\<close>

text \<open>
  Everything the driver does to the outside world is recorded, in program order, as a
  list of events: the log calls (\<^verbatim>\<open>upsdebugx\<close> with its level, \<^verbatim>\<open>upslogx\<close> with its
  priority, each with its format string), the libusb calls with the arguments that
  matter, \<^verbatim>\<open>free\<close>, the evaluation of a matcher node and the call of the caller's
  callback. \<open>Libusb_open n r\<close> is the call on the device at index \<open>n\<close> of the list
  together with the handle it stored (\<open>None\<close> when it failed). Time-outs are not
  recorded.
\<close>

datatype priority = LOG_DEBUG | LOG_NOTICE | LOG_WARNING

datatype event =
    Upsdebugx int string
  | Upsdebug_hex int string "byte list"
  | Upslogx priority string
  | Fflush
  | Free "string option"
  | Libusb_init
  | Libusb_exit
  | Libusb_get_device_list
  | Libusb_free_device_list
  | Libusb_get_device_descriptor nat
  | Libusb_open nat "handle option"
  | Libusb_close handle
  | Libusb_get_bus_number nat
  | Libusb_get_string_descriptor_ascii handle byte
  | Libusb_kernel_driver_active handle int
  | Libusb_set_auto_detach_kernel_driver handle int
  | Libusb_claim_interface handle int
  | Libusb_detach_kernel_driver handle int
  | Libusb_set_interface_alt_setting handle int int
  | Libusb_control_transfer handle byte byte u16 u16 u16
  | Libusb_get_config_descriptor nat byte
  | Libusb_free_config_descriptor
  | Libusb_interrupt_transfer handle byte int
  | Libusb_clear_halt handle byte
  | Matches nat USBDevice_t
  | Callback handle USBDevice_t "byte list" int

section \<open>Error classifier: \<^verbatim>\<open>nut_usb_logerror\<close>\<close>

text \<open>
  \<^verbatim>\<open>
  if (ret >= 0) return ret;
  switch (ret) {
  case LIBUSB_ERROR_INVALID_PARAM: case LIBUSB_ERROR_INTERRUPTED:
  case LIBUSB_ERROR_NO_MEM: case LIBUSB_ERROR_TIMEOUT: case LIBUSB_ERROR_OVERFLOW:
      upsdebugx(2, "%s: %s.", desc, libusb_strerror(ret)); return ret;
  case LIBUSB_ERROR_BUSY: ... case LIBUSB_ERROR_OTHER: default:
      upslogx(LOG_DEBUG, "%s: %s.", desc, libusb_strerror(ret)); return ret;
  }
  \<close>
  The function returns the status and the events it emitted; the event carries the
  operation label \<open>desc\<close>.
\<close>

definition nut_usb_logerror :: "int \<Rightarrow> string \<Rightarrow> int \<times> event list" where
  "nut_usb_logerror ret desc =
     (if ret \<ge> 0 then (ret, [])
      else if ret = LIBUSB_ERROR_INVALID_PARAM \<or> ret = LIBUSB_ERROR_INTERRUPTED \<or>
              ret = LIBUSB_ERROR_NO_MEM \<or> ret = LIBUSB_ERROR_TIMEOUT \<or>
              ret = LIBUSB_ERROR_OVERFLOW
           then (ret, [Upsdebugx 2 desc])
      else (ret, [Upslogx LOG_DEBUG desc]))"

section \<open>Transfer primitives\<close>

text \<open>
  What libusb answers to a transfer on an open handle is not decided by the driver: it
  is a parameter of the model. A control transfer answers with its status and the
  buffer's content afterwards, an interrupt transfer with its status and the number of
  bytes transferred (stored through \<^verbatim>\<open>&bufsize\<close>), a string request with its status and
  the string, \<^verbatim>\<open>libusb_clear_halt\<close> with its status.
\<close>

record transport =
  control_transfer :: "handle \<Rightarrow> byte \<Rightarrow> byte \<Rightarrow> u16 \<Rightarrow> u16 \<Rightarrow> u16 \<Rightarrow> int \<times> byte list"
  get_string_descriptor_ascii :: "handle \<Rightarrow> byte \<Rightarrow> int \<times> string"
  interrupt_transfer :: "handle \<Rightarrow> byte \<Rightarrow> int \<Rightarrow> int \<times> int"
  clear_halt :: "handle \<Rightarrow> byte \<Rightarrow> int"

text \<open>
  \<^verbatim>\<open>nut_libusb_get_report\<close>: the request type is
  \<^verbatim>\<open>LIBUSB_ENDPOINT_IN|LIBUSB_REQUEST_TYPE_CLASS|LIBUSB_RECIPIENT_INTERFACE\<close> (\<open>feature_in\<close>;
  \<open>feature_out\<close> is the same with \<^verbatim>\<open>LIBUSB_ENDPOINT_OUT\<close>), the request
  \<^verbatim>\<open>0x01\<close>, the value \<^verbatim>\<open>ReportId+(0x03<<8)\<close> and the length \<^verbatim>\<open>ReportSize\<close>, both
  converted to \<^verbatim>\<open>uint16_t\<close> by the call. The result is the returned \<^verbatim>\<open>int\<close>, the
  buffer's content (\<open>None\<close>: untouched) and the events.
\<close>

definition feature_wValue :: "int \<Rightarrow> u16" where
  "feature_wValue ReportId = word_of_int (ReportId + push_bit 8 3)"

definition feature_in :: byte where
  "feature_in = LIBUSB_ENDPOINT_IN OR LIBUSB_REQUEST_TYPE_CLASS OR LIBUSB_RECIPIENT_INTERFACE"

definition feature_out :: byte where
  "feature_out = LIBUSB_ENDPOINT_OUT OR LIBUSB_REQUEST_TYPE_CLASS OR LIBUSB_RECIPIENT_INTERFACE"

definition nut_libusb_get_report ::
  "transport \<Rightarrow> handle option \<Rightarrow> int \<Rightarrow> int \<Rightarrow> int \<times> byte list option \<times> event list" where
  "nut_libusb_get_report T udev ReportId ReportSize =
     (case udev of
        None \<Rightarrow> (LIBUSB_ERROR_INVALID_PARAM, None, [Upsdebugx 4 ''Entering libusb_get_report''])
      | Some h \<Rightarrow>
          let (ret, raw_buf) = control_transfer T h feature_in 0x01 (feature_wValue ReportId)
                                 (word_of_int usb_if_num) (word_of_int ReportSize);
              call = [Upsdebugx 4 ''Entering libusb_get_report'',
                      Libusb_control_transfer h feature_in 0x01 (feature_wValue ReportId)
                        (word_of_int usb_if_num) (word_of_int ReportSize)]
          in if ret = LIBUSB_ERROR_PIPE then (0, Some raw_buf, call)
             else (fst (nut_usb_logerror ret ''nut_libusb_get_report''), Some raw_buf,
                   call @ snd (nut_usb_logerror ret ''nut_libusb_get_report'')))"

text \<open>\<^verbatim>\<open>nut_libusb_set_report\<close>: the outbound twin (request \<^verbatim>\<open>0x09\<close>).\<close>

definition nut_libusb_set_report ::
  "transport \<Rightarrow> handle option \<Rightarrow> int \<Rightarrow> int \<Rightarrow> int \<times> event list" where
  "nut_libusb_set_report T udev ReportId ReportSize =
     (case udev of
        None \<Rightarrow> (LIBUSB_ERROR_INVALID_PARAM, [])
      | Some h \<Rightarrow>
          let (ret, raw_buf) = control_transfer T h feature_out 0x09 (feature_wValue ReportId)
                                 (word_of_int usb_if_num) (word_of_int ReportSize);
              call = [Libusb_control_transfer h feature_out 0x09 (feature_wValue ReportId)
                        (word_of_int usb_if_num) (word_of_int ReportSize)]
          in if ret = LIBUSB_ERROR_PIPE then (0, call)
             else (fst (nut_usb_logerror ret ''nut_libusb_set_report''),
                   call @ snd (nut_usb_logerror ret ''nut_libusb_set_report'')))"

text \<open>\<^verbatim>\<open>nut_libusb_get_string\<close>: one string request, classified.\<close>

definition nut_libusb_get_string ::
  "transport \<Rightarrow> handle option \<Rightarrow> int \<Rightarrow> int \<times> string option \<times> event list" where
  "nut_libusb_get_string T udev StringIdx =
     (case udev of
        None \<Rightarrow> (LIBUSB_ERROR_INVALID_PARAM, None, [])
      | Some h \<Rightarrow>
          let (ret, buf) = get_string_descriptor_ascii T h (word_of_int StringIdx)
          in (fst (nut_usb_logerror ret ''nut_libusb_get_string''), Some buf,
              Libusb_get_string_descriptor_ascii h (word_of_int StringIdx)
                # snd (nut_usb_logerror ret ''nut_libusb_get_string'')))"

text \<open>
  \<^verbatim>\<open>nut_libusb_get_interrupt\<close>:
  \<^verbatim>\<open>
  ret = libusb_interrupt_transfer(udev, 0x81, buf, bufsize, &bufsize, timeout);
  if (ret == LIBUSB_SUCCESS) return bufsize;
  if (ret == LIBUSB_ERROR_PIPE) ret = libusb_clear_halt(udev, 0x81);
  return nut_usb_logerror(ret, __func__);
  \<close>
\<close>

definition nut_libusb_get_interrupt ::
  "transport \<Rightarrow> handle option \<Rightarrow> int \<Rightarrow> int \<times> event list" where
  "nut_libusb_get_interrupt T udev bufsize =
     (case udev of
        None \<Rightarrow> (LIBUSB_ERROR_INVALID_PARAM, [])
      | Some h \<Rightarrow>
          let (ret, transferred) = interrupt_transfer T h 0x81 bufsize;
              call = [Libusb_interrupt_transfer h 0x81 bufsize]
          in if ret = LIBUSB_SUCCESS then (transferred, call)
             else if ret = LIBUSB_ERROR_PIPE
               then (fst (nut_usb_logerror (clear_halt T h 0x81) ''nut_libusb_get_interrupt''),
                     call @ [Libusb_clear_halt h 0x81]
                       @ snd (nut_usb_logerror (clear_halt T h 0x81) ''nut_libusb_get_interrupt''))
             else (fst (nut_usb_logerror ret ''nut_libusb_get_interrupt''),
                   call @ snd (nut_usb_logerror ret ''nut_libusb_get_interrupt'')))"

section \<open>Interface acquisition: \<^verbatim>\<open>nut_usb_claim_interface\<close>\<close>

text \<open>
  The build-time switches of \<^verbatim>\<open>config.h\<close> that select the code compiled, and whether
  the platform is Linux (\<^verbatim>\<open>#ifndef __linux__\<close> in \<^verbatim>\<open>nut_libusb_open\<close>).
\<close>

record build_config =
  have_libusb_kernel_driver_active :: bool
  have_libusb_set_auto_detach_kernel_driver :: bool
  have_libusb_detach_kernel_driver :: bool
  on_linux :: bool

text \<open>
  \<^verbatim>\<open>struct libusb_device_descriptor\<close>, the fields the driver reads (the release code
  carries a suffix, \<^verbatim>\<open>USBDevice_t\<close> has a field of the same name).
\<close>

record libusb_device_descriptor =
  idVendor :: u16
  idProduct :: u16
  bcdDevice_d :: u16
  iManufacturer :: byte
  iProduct :: byte
  iSerialNumber :: byte

text \<open>
  One entry of the list \<^verbatim>\<open>libusb_get_device_list\<close> returns, as what libusb and the C
  library answer for it during one run of \<^verbatim>\<open>nut_libusb_open\<close>: the status and content
  of the device descriptor, the status of \<^verbatim>\<open>libusb_open\<close> and the handle it stores, the
  bus number, whether \<^verbatim>\<open>malloc(4)\<close> and \<^verbatim>\<open>strdup\<close> succeed, the transfers on the
  opened handle, the status of \<^verbatim>\<open>libusb_kernel_driver_active\<close> and of
  \<^verbatim>\<open>libusb_set_auto_detach_kernel_driver\<close>, the status of the k-th call (from 0) of
  \<^verbatim>\<open>libusb_claim_interface\<close> and of \<^verbatim>\<open>libusb_detach_kernel_driver\<close>, the status of
  \<^verbatim>\<open>libusb_set_interface_alt_setting\<close>, the status of \<^verbatim>\<open>libusb_get_config_descriptor\<close>
  and the extra bytes of \<^verbatim>\<open>interface[0].altsetting[0]\<close> (\<^verbatim>\<open>extra_length\<close> is their
  number).
\<close>

record libusb_device =
  get_device_descriptor :: "int \<times> libusb_device_descriptor"
  open_result :: "int \<times> handle"
  get_bus_number :: byte
  malloc_ok :: bool
  strdup_ok :: "string \<Rightarrow> bool"
  io :: transport
  kernel_driver_active :: int
  set_auto_detach_kernel_driver :: int
  claim_interface :: "nat \<Rightarrow> int"
  detach_kernel_driver :: "nat \<Rightarrow> int"
  set_interface_alt_setting :: "int \<Rightarrow> int"
  get_config_descriptor :: int
  extra :: "byte list"

text \<open>
  The first block, compiled when both \<^verbatim>\<open>HAVE_LIBUSB_KERNEL_DRIVER_ACTIVE\<close> and
  \<^verbatim>\<open>HAVE_LIBUSB_SET_AUTO_DETACH_KERNEL_DRIVER\<close> are defined.
\<close>

definition auto_detach :: "libusb_device \<Rightarrow> handle \<Rightarrow> event list" where
  "auto_detach dev udev =
     (if kernel_driver_active dev = 1
      then [Libusb_kernel_driver_active udev usb_if_num,
            Upsdebugx 3 ''%s: libusb_kernel_driver_active() returned 1 (driver active).'',
            Libusb_set_auto_detach_kernel_driver udev 1,
            if set_auto_detach_kernel_driver dev \<noteq> LIBUSB_SUCCESS
            then Upsdebugx 1 ''%s: failed to set kernel driver auto-detach driver flag for USB device (%s).''
            else Upsdebugx 2 ''%s: successfully set kernel driver auto-detach flag.'']
      else [Libusb_kernel_driver_active udev usb_if_num,
            Upsdebugx 3 ''%s: libusb_kernel_driver_active() returned %d (%s).''])"

text \<open>
  The loop of the explicit-detach path:
  \<^verbatim>\<open>
  retries = 3;
  while ((ret = libusb_claim_interface(udev, usb_if_num)) != LIBUSB_SUCCESS) {
      upsdebugx(2, ...);
      if (retries-- == 0) return ret;
      ret = libusb_detach_kernel_driver(udev, usb_if_num);
      ... one of three log lines, by ret ...
  }
  \<close>
  \<open>claim_loop dev udev retries k\<close> is the loop entered with the counter at \<open>retries\<close>
  after \<open>k\<close> claim attempts (and \<open>k\<close> detach calls). The counter starts at 3 and is
  only decremented while it is positive, so it is a \<open>nat\<close>. Leaving the loop leads to
  the function's final \<^verbatim>\<open>return LIBUSB_SUCCESS\<close>.
\<close>

definition detach_log :: "int \<Rightarrow> event" where
  "detach_log ret =
     (if ret = LIBUSB_SUCCESS then Upsdebugx 2 ''%s: detached kernel driver from USB device...''
      else if ret = LIBUSB_ERROR_NOT_FOUND then Upsdebugx 2 ''%s: kernel driver already detached.''
      else Upsdebugx 1 ''%s: failed to detach kernel driver from USB device (%s).'')"

fun claim_loop :: "libusb_device \<Rightarrow> handle \<Rightarrow> nat \<Rightarrow> nat \<Rightarrow> int \<times> event list" where
  "claim_loop dev udev 0 k =
     (if claim_interface dev k = LIBUSB_SUCCESS
      then (LIBUSB_SUCCESS, [Libusb_claim_interface udev usb_if_num])
      else (claim_interface dev k,
            [Libusb_claim_interface udev usb_if_num,
             Upsdebugx 2 ''%s: failed to claim USB device (%s).'']))"
| "claim_loop dev udev (Suc retries) k =
     (if claim_interface dev k = LIBUSB_SUCCESS
      then (LIBUSB_SUCCESS, [Libusb_claim_interface udev usb_if_num])
      else (fst (claim_loop dev udev retries (Suc k)),
            [Libusb_claim_interface udev usb_if_num,
             Upsdebugx 2 ''%s: failed to claim USB device (%s).'',
             Libusb_detach_kernel_driver udev usb_if_num,
             detach_log (detach_kernel_driver dev k)]
            @ snd (claim_loop dev udev retries (Suc k))))"

definition nut_usb_claim_interface ::
  "build_config \<Rightarrow> libusb_device \<Rightarrow> handle \<Rightarrow> int \<times> event list" where
  "nut_usb_claim_interface cfg dev udev =
     (let pre = (if have_libusb_kernel_driver_active cfg \<and>
                    have_libusb_set_auto_detach_kernel_driver cfg
                 then auto_detach dev udev else [])
      in if have_libusb_detach_kernel_driver cfg
         then (fst (claim_loop dev udev 3 0), pre @ snd (claim_loop dev udev 3 0))
         else if claim_interface dev 0 \<noteq> LIBUSB_SUCCESS
           then (claim_interface dev 0, pre @ [Libusb_claim_interface udev usb_if_num])
           else (LIBUSB_SUCCESS, pre @ [Libusb_claim_interface udev usb_if_num]))"

section \<open>Alternate-setting negotiation: \<^verbatim>\<open>nut_usb_set_altinterface\<close>\<close>

text \<open>
  The driver variables come from \<^verbatim>\<open>testvar\<close> and \<^verbatim>\<open>getval\<close>, and the conversion
  \<^verbatim>\<open>str_to_int\<close> from \<^verbatim>\<open>str.h\<close>; all three live outside the two source files and are
  parameters: \<open>str_to_int s n\<close> is called with the string and the present value of
  \<^verbatim>\<open>altinterface\<close>, and answers whether it succeeded and the value afterwards.
\<close>

record driver_vars =
  testvar_usb_set_altinterface :: bool
  getval_usb_set_altinterface :: "string option"
  str_to_int :: "string \<Rightarrow> int \<Rightarrow> bool \<times> int"

definition nut_usb_set_altinterface ::
  "driver_vars \<Rightarrow> libusb_device \<Rightarrow> handle \<Rightarrow> int \<times> event list" where
  "nut_usb_set_altinterface vars dev udev =
     (if \<not> testvar_usb_set_altinterface vars
      then (LIBUSB_SUCCESS, [Upsdebugx 3 ''%s: skipped libusb_set_interface_alt_setting(udev, %d, 0).''])
      else
        let (altinterface, warn) =
              (case getval_usb_set_altinterface vars of
                 None \<Rightarrow> (0, [])
               | Some alt_string \<Rightarrow>
                   if \<not> fst (str_to_int vars alt_string 0)
                   then (snd (str_to_int vars alt_string 0),
                         [Upslogx LOG_WARNING ''%s: could not convert to an int the provided value (%s) for 'usb_set_altinterface' (%s).''])
                   else if snd (str_to_int vars alt_string 0) < 0 \<or>
                           snd (str_to_int vars alt_string 0) > 255
                   then (snd (str_to_int vars alt_string 0),
                         [Upslogx LOG_WARNING ''%s: setting bAlternateInterface to %d will probably not work.''])
                   else (snd (str_to_int vars alt_string 0), []));
            ret = set_interface_alt_setting dev altinterface
        in (ret,
            warn @
            [Upsdebugx 2 ''%s: calling libusb_set_interface_alt_setting(udev, %d, %d).'',
             Libusb_set_interface_alt_setting udev usb_if_num altinterface] @
            (if ret \<noteq> LIBUSB_SUCCESS
             then [Upslogx LOG_WARNING ''%s: libusb_set_interface_alt_setting(udev, %d, %d) error (%s).'']
             else []) @
            [Upslogx LOG_NOTICE ''%s: libusb_set_interface_alt_setting() should not be necessary - please email the nut-upsdev list with information about your device.'']))"

section \<open>Device enumeration and matching: \<^verbatim>\<open>nut_libusb_open\<close>\<close>

text \<open>
  The body of the \<^verbatim>\<open>for\<close> loop leaves its straight-line path in four ways: \<^verbatim>\<open>continue\<close>,
  \<^verbatim>\<open>goto next_device\<close> (which closes the handle and continues), \<^verbatim>\<open>return\<close>, and a fatal
  exit of the process (\<^verbatim>\<open>fatalx\<close>, \<^verbatim>\<open>fatal_with_errno\<close>) with its message.
\<close>

datatype exit = Continue | Goto_next_device | Return int | Fatal string

subsection \<open>Identity of the candidate (lines 240 to 303)\<close>

text \<open>\<^verbatim>\<open>sprintf(curDevice->Bus, "%03d", bus)\<close> for a bus number below 1000 (it is a byte).\<close>

definition fmt_03d :: "nat \<Rightarrow> string" where
  "fmt_03d n =
     [''0123456789'' ! (n div 100 mod 10), ''0123456789'' ! (n div 10 mod 10),
      ''0123456789'' ! (n mod 10)]"

text \<open>
  The three string descriptors are read by the same statement:
  \<^verbatim>\<open>
  if (dev_desc.iX) {
      ret = libusb_get_string_descriptor_ascii(udev, dev_desc.iX, string, sizeof(string));
      if (ret > 0 && (curDevice->X = strdup(string)) == NULL) goto oom_error;
  }
  \<close>
  The result is \<open>None\<close> for \<^verbatim>\<open>goto oom_error\<close> and otherwise the field's new value
  (\<open>None\<close> inside: the field stays \<^verbatim>\<open>NULL\<close>).
\<close>

definition read_string ::
  "libusb_device \<Rightarrow> handle \<Rightarrow> byte \<Rightarrow> string option option \<times> event list" where
  "read_string dev udev idx =
     (if idx = 0 then (Some None, [])
      else
        let (ret, string) = get_string_descriptor_ascii (io dev) udev idx
        in if ret > 0
           then (if strdup_ok dev string then Some (Some string) else None,
                 [Libusb_get_string_descriptor_ascii udev idx])
           else (Some None, [Libusb_get_string_descriptor_ascii udev idx]))"

definition identity_log :: "event list" where
  "identity_log =
     [Upsdebugx 2 ''- VendorID: %04x'', Upsdebugx 2 ''- ProductID: %04x'',
      Upsdebugx 2 ''- Manufacturer: %s'', Upsdebugx 2 ''- Product: %s'',
      Upsdebugx 2 ''- Serial Number: %s'', Upsdebugx 2 ''- Bus: %s'',
      Upsdebugx 2 ''- Device release number: %04x'', Upsdebugx 2 ''Trying to match device'']"

text \<open>The label \<^verbatim>\<open>oom_error\<close>: the device list is freed and the process exits.\<close>

definition oom_error :: "exit \<times> event list" where
  "oom_error = (Fatal ''Out of memory'', [Libusb_free_device_list])"

text \<open>
  \<open>identify_candidate devnum dev udevp cur\<close>: the device descriptor is read and the
  device opened (\<^verbatim>\<open>*udevp\<close> is written only when \<^verbatim>\<open>libusb_open\<close> succeeds); then the four
  strings of the caller's record are freed, the record is zeroed and filled again.
  \<open>Inr udev\<close> is the straight-line path with the opened handle; the second and third
  components are \<^verbatim>\<open>*udevp\<close> and \<^verbatim>\<open>*curDevice\<close> afterwards.
\<close>

definition identify_candidate ::
  "nat \<Rightarrow> libusb_device \<Rightarrow> handle option \<Rightarrow> USBDevice_t \<Rightarrow>
   (exit + handle) \<times> handle option \<times> USBDevice_t \<times> event list" where
  "identify_candidate devnum dev udevp cur =
     (let (ret, dev_desc) = get_device_descriptor dev;
          e0 = [Upsdebugx 2 ''Checking device %lu of %lu.'', Libusb_get_device_descriptor devnum]
      in if ret \<noteq> LIBUSB_SUCCESS
         then (Inl Continue, udevp, cur,
               e0 @ [Upsdebugx 2 ''Unable to get DEVICE descriptor (%s).''])
         else if fst (open_result dev) \<noteq> 0
         then (Inl Continue, udevp, cur,
               e0 @ [Libusb_open devnum None,
                     Upsdebugx 2 ''Failed to open device %04X:%04X (%s), skipping.''])
         else
           let udev = snd (open_result dev);
               e1 = e0 @ [Libusb_open devnum (Some udev), Free (Vendor cur), Free (Product cur),
                          Free (Serial cur), Free (Bus cur), Libusb_get_bus_number devnum]
           in if \<not> malloc_ok dev
              then (Inl (fst oom_error), Some udev, USBDevice_zero, e1 @ snd oom_error)
              else
                let cur1 = USBDevice_zero
                      \<lparr>Bus := Some (fmt_03d (unat (get_bus_number dev))),
                       VendorID := idVendor dev_desc,
                       ProductID := idProduct dev_desc,
                       bcdDevice := bcdDevice_d dev_desc\<rparr>;
                    (v, ev) = read_string dev udev (iManufacturer dev_desc)
                in (case v of
                      None \<Rightarrow> (Inl (fst oom_error), Some udev, cur1, e1 @ ev @ snd oom_error)
                    | Some vendor \<Rightarrow>
                        (let cur2 = cur1\<lparr>Vendor := vendor\<rparr>;
                             (p, ep) = read_string dev udev (iProduct dev_desc)
                         in (case p of
                               None \<Rightarrow>
                                 (Inl (fst oom_error), Some udev, cur2,
                                  e1 @ ev @ ep @ snd oom_error)
                             | Some product \<Rightarrow>
                                 (let cur3 = cur2\<lparr>Product := product\<rparr>;
                                      (s, es) = read_string dev udev (iSerialNumber dev_desc)
                                  in (case s of
                                        None \<Rightarrow>
                                          (Inl (fst oom_error), Some udev, cur3,
                                           e1 @ ev @ ep @ es @ snd oom_error)
                                      | Some serial \<Rightarrow>
                                          (Inr udev, Some udev, cur3\<lparr>Serial := serial\<rparr>,
                                           e1 @ ev @ ep @ es @ identity_log)))))))"

subsection \<open>The matcher chain (lines 304 to 317)\<close>

text \<open>
  \<^verbatim>\<open>USBDeviceMatcher_t\<close> is declared outside the two source files: a node holds a match
  function, its private data and the pointer to the next node. The chain is the list
  of its nodes in pointer order.
\<close>

record 'p USBDeviceMatcher_t =
  match_function :: "USBDevice_t \<Rightarrow> 'p \<Rightarrow> int"
  privdata :: 'p

text \<open>\<^verbatim>\<open>matches\<close>: a \<^verbatim>\<open>NULL\<close> matcher matches everything.\<close>

definition matches :: "'p USBDeviceMatcher_t option \<Rightarrow> USBDevice_t \<Rightarrow> int" where
  "matches matcher device =
     (case matcher of None \<Rightarrow> 1 | Some m \<Rightarrow> match_function m device (privdata m))"

text \<open>
  \<^verbatim>\<open>
  for (m = matcher; m; m=m->next) {
      ret = matches(m, curDevice);
      if (ret==0) { upsdebugx(...); goto next_device; }
      else if (ret==-1) { libusb_free_device_list(devlist, 1); fatal_with_errno(EXIT_FAILURE, "matcher"); }
      else if (ret==-2) { upsdebugx(...); goto next_device; }
  }
  upsdebugx(2, "Device matches");
  \<close>
  \<open>match_chain i ms cur\<close> is the loop at the \<open>i\<close>-th node with \<open>ms\<close> the nodes left.
  \<open>None\<close> is the loop running to its end.
\<close>

fun match_chain ::
  "nat \<Rightarrow> 'p USBDeviceMatcher_t list \<Rightarrow> USBDevice_t \<Rightarrow> exit option \<times> event list" where
  "match_chain i [] cur = (None, [Upsdebugx 2 ''Device matches''])"
| "match_chain i (m # ms) cur =
     (if matches (Some m) cur = 0
      then (Some Goto_next_device,
            [Matches i cur, Upsdebugx 2 ''Device does not match - skipping''])
      else if matches (Some m) cur = - 1
      then (Some (Fatal ''matcher''), [Matches i cur, Libusb_free_device_list])
      else if matches (Some m) cur = - 2
      then (Some Goto_next_device,
            [Matches i cur, Upsdebugx 2 ''matcher: unspecified error''])
      else (fst (match_chain (Suc i) ms cur), Matches i cur # snd (match_chain (Suc i) ms cur)))"

subsection \<open>Descriptor discovery (lines 337 to 406)\<close>

text \<open>The index of the HID descriptor: 1 for vendor \<^verbatim>\<open>0x463\<close> with release \<^verbatim>\<open>0x0202\<close>.\<close>

definition hid_desc_index :: "USBDevice_t \<Rightarrow> int \<times> event list" where
  "hid_desc_index cur =
     (if VendorID cur = 0x463 \<and> bcdDevice cur = 0x0202
      then (1, [Upsdebugx 1 ''Eaton device v2.02. Using full report descriptor''])
      else (0, []))"

text \<open>\<^verbatim>\<open>(LIBUSB_DT_x<<8) + hid_desc_index\<close>, converted to the \<^verbatim>\<open>uint16_t\<close> \<^verbatim>\<open>wValue\<close>.\<close>

definition desc_wValue :: "byte \<Rightarrow> int \<Rightarrow> u16" where
  "desc_wValue dt idx = word_of_int (push_bit 8 (uint dt) + idx)"

text \<open>\<^verbatim>\<open>p[7] | (p[8] << 8)\<close>, stored in a \<^verbatim>\<open>uint16_t\<close>.\<close>

definition report_length :: "byte list \<Rightarrow> u16" where
  "report_length p = ucast (p ! 7) OR push_bit 8 (ucast (p ! 8))"

definition std_in_interface :: byte where
  "std_in_interface =
     LIBUSB_ENDPOINT_IN OR LIBUSB_REQUEST_TYPE_STANDARD OR LIBUSB_RECIPIENT_INTERFACE"

text \<open>
  Method 1. The flag \<^verbatim>\<open>got_rdlen1\<close> and the value \<^verbatim>\<open>rdlen1\<close> are one \<open>u16 option\<close>:
  \<^verbatim>\<open>rdlen1\<close> is read only where the flag is set.
\<close>

definition method1 :: "libusb_device \<Rightarrow> handle \<Rightarrow> int \<Rightarrow> u16 option \<times> event list" where
  "method1 dev udev idx =
     (let (ret, buf) = control_transfer (io dev) udev std_in_interface
                         LIBUSB_REQUEST_GET_DESCRIPTOR (desc_wValue LIBUSB_DT_HID idx)
                         (word_of_int usb_if_num) 0x9;
          call = Libusb_control_transfer udev std_in_interface LIBUSB_REQUEST_GET_DESCRIPTOR
                   (desc_wValue LIBUSB_DT_HID idx) (word_of_int usb_if_num) 0x9
      in if ret < 0
         then (None, [call, Upsdebugx 2 ''Unable to get HID descriptor (%s)'',
                      Upsdebugx 2 ''Warning: HID descriptor, method 1 failed''])
         else if ret < 9
         then (None, [call, Upsdebugx 2 ''HID descriptor too short (expected %d, got %d)'',
                      Upsdebugx 2 ''Warning: HID descriptor, method 1 failed''])
         else (Some (report_length buf),
               [call, Upsdebug_hex 3 ''HID descriptor, method 1'' (take 9 buf),
                Upsdebugx 3 ''HID descriptor length (method 1) %u'']))"

text \<open>
  The scan of Method 2:
  \<^verbatim>\<open>
  for (i = 0; i <= if_desc->extra_length - 9; i += if_desc->extra[i]) {
      upsdebugx(4, ...);
      if (if_desc->extra[i] < 9) continue;
      if (if_desc->extra[i + 1] != LIBUSB_DT_HID) continue;
      ... rdlen2 = hid_desc_ptr[7] | (hid_desc_ptr[8] << 8); got_rdlen2 = 1; ... break;
  }
  \<close>
  A length byte of 0 leaves \<open>i\<close> where it is, so the loop need not end: the scan is a
  partial function, \<open>None\<close> when it does not return. The events are accumulated in
  \<open>acc\<close>.
\<close>

partial_function (option) scan_extra ::
  "byte list \<Rightarrow> nat \<Rightarrow> event list \<Rightarrow> (u16 option \<times> event list) option" where
  "scan_extra ex i acc =
     (if int i \<le> int (length ex) - 9
      then if ex ! i < 9
           then scan_extra ex (i + unat (ex ! i))
                  (acc @ [Upsdebugx 4 ''i=%d, extra[i]=%02x, extra[i+1]=%02x''])
           else if ex ! (i + 1) \<noteq> LIBUSB_DT_HID
           then scan_extra ex (i + unat (ex ! i))
                  (acc @ [Upsdebugx 4 ''i=%d, extra[i]=%02x, extra[i+1]=%02x''])
           else Some (Some (report_length (drop i ex)),
                      acc @ [Upsdebugx 4 ''i=%d, extra[i]=%02x, extra[i+1]=%02x'',
                             Upsdebug_hex 4 ''HID descriptor, method 2'' (take 9 (drop i ex)),
                             Upsdebugx 3 ''HID descriptor length (method 2) %u''])
      else Some (None, acc))"

text \<open>The condition of line 368 under which Method 2 is skipped.\<close>

definition skip_method2 :: "USBDevice_t \<Rightarrow> bool" where
  "skip_method2 cur = (VendorID cur \<noteq> 0x463 \<and> bcdDevice cur \<noteq> 0x0202)"

text \<open>The \<^verbatim>\<open>else\<close> branch of line 370: Method 2 itself.\<close>

definition attempt_method2 ::
  "nat \<Rightarrow> libusb_device \<Rightarrow> (u16 option \<times> event list) option" where
  "attempt_method2 devnum dev =
     (if get_config_descriptor dev \<noteq> LIBUSB_SUCCESS
      then Some (None,
                 [Libusb_get_config_descriptor devnum 0,
                  Upsdebugx 2 ''%s: unable to get the first configuration descriptor (%s).'',
                  Upsdebugx 2 ''Warning: HID descriptor, method 2 failed''])
      else case scan_extra (extra dev) 0 [] of
             None \<Rightarrow> None
           | Some (got, evs) \<Rightarrow>
               Some (got,
                     [Libusb_get_config_descriptor devnum 0] @ evs @
                     [Libusb_free_config_descriptor] @
                     (if got = None
                      then [Upsdebugx 2 ''Warning: HID descriptor, method 2 failed'']
                      else [])))"

definition method2 ::
  "nat \<Rightarrow> libusb_device \<Rightarrow> USBDevice_t \<Rightarrow> (u16 option \<times> event list) option" where
  "method2 devnum dev cur =
     (if skip_method2 cur
      then Some (None,
                 [Upsdebugx 2 ''Eaton device v2.02. Skipping method 2 for retrieving HID descriptor.''])
      else attempt_method2 devnum dev)"

subsection \<open>Reconciliation, fetch and callback (lines 408 to 454)\<close>

text \<open>
  The caller's callback receives the handle, the record, the report buffer and the
  length, and answers with an \<^verbatim>\<open>int\<close>.
\<close>

type_synonym callback = "handle \<Rightarrow> USBDevice_t \<Rightarrow> byte list \<Rightarrow> int \<Rightarrow> int"

text \<open>
  Lines 421 to 454, with the reconciled length \<open>rdlen\<close>. The comparison
  \<^verbatim>\<open>rdlen > sizeof(rdbuf)\<close> is one of unsigned numbers; \<^verbatim>\<open>ret < rdlen\<close> is one of
  \<^verbatim>\<open>int\<close>s; \<^verbatim>\<open>rdlen = ret\<close> converts back to \<^verbatim>\<open>uint16_t\<close>.
\<close>

definition fetch_descriptor ::
  "libusb_device \<Rightarrow> callback \<Rightarrow> handle \<Rightarrow> USBDevice_t \<Rightarrow> int \<Rightarrow> u16 \<Rightarrow> exit \<times> event list" where
  "fetch_descriptor dev cb udev cur idx rdlen =
     (if unat rdlen > MAX_REPORT_SIZE
      then (Goto_next_device,
            [Upsdebugx 2 ''HID descriptor length %d'',
             Upsdebugx 2 ''HID descriptor too long %u (max %lu)''])
      else
        let (ret, rdbuf) = control_transfer (io dev) udev std_in_interface
                             LIBUSB_REQUEST_GET_DESCRIPTOR (desc_wValue LIBUSB_DT_REPORT idx)
                             (word_of_int usb_if_num) rdlen;
            e = [Upsdebugx 2 ''HID descriptor length %d'',
                 Libusb_control_transfer udev std_in_interface LIBUSB_REQUEST_GET_DESCRIPTOR
                   (desc_wValue LIBUSB_DT_REPORT idx) (word_of_int usb_if_num) rdlen]
        in if ret < 0
           then (Goto_next_device, e @ [Upsdebugx 2 ''Unable to get Report descriptor (%s)''])
           else
             let (rdlen', short) =
                   (if ret < uint rdlen
                    then (word_of_int ret :: u16,
                          [Upsdebugx 2 ''Warning: report descriptor too short (expected %u, got %d)''])
                    else (rdlen, []))
             in if cb udev cur rdbuf (uint rdlen') < 1
                then (Goto_next_device,
                      e @ short @ [Callback udev cur rdbuf (uint rdlen'),
                                   Upsdebugx 2 ''Caller doesn't like this device''])
                else (Return LIBUSB_SUCCESS,
                      e @ short @ [Callback udev cur rdbuf (uint rdlen'),
                                   Upsdebugx 2 ''Report descriptor retrieved (Reportlen = %u)'',
                                   Upsdebugx 2 ''Found HID device'', Fflush,
                                   Libusb_free_device_list]))"

text \<open>
  Lines 408 to 420:
  \<^verbatim>\<open>
  if (!got_rdlen1 && !got_rdlen2) { upsdebugx(...); goto next_device; }
  if (got_rdlen1 && got_rdlen2 && rdlen1 != rdlen2) upsdebugx(2, "Warning: ...");
  rdlen = got_rdlen2 ? rdlen2 : rdlen1;
  \<close>
  \<open>reconcile\<close> is the length chosen, \<open>None\<close> when neither method obtained one.
\<close>

definition reconcile :: "u16 option \<Rightarrow> u16 option \<Rightarrow> u16 option" where
  "reconcile got1 got2 = (case got2 of Some rdlen2 \<Rightarrow> Some rdlen2 | None \<Rightarrow> got1)"

definition reconcile_and_fetch ::
  "libusb_device \<Rightarrow> callback \<Rightarrow> handle \<Rightarrow> USBDevice_t \<Rightarrow> int \<Rightarrow> u16 option \<Rightarrow> u16 option \<Rightarrow>
   exit \<times> event list" where
  "reconcile_and_fetch dev cb udev cur idx got1 got2 =
     (case reconcile got1 got2 of
        None \<Rightarrow> (Goto_next_device, [Upsdebugx 2 ''Unable to retrieve any HID descriptor''])
      | Some rdlen \<Rightarrow>
          (fst (fetch_descriptor dev cb udev cur idx rdlen),
           (if got1 \<noteq> None \<and> got2 \<noteq> None \<and> got1 \<noteq> got2
            then [Upsdebugx 2 ''Warning: two different HID descriptors retrieved (Reportlen = %u vs. %u)'']
            else []) @ snd (fetch_descriptor dev cb udev cur idx rdlen)))"

subsection \<open>One candidate and the loop over the device list\<close>

text \<open>
  Lines 319 to 454 for a candidate that passed the matcher chain: the interface is
  claimed (a failure is fatal), the alternate setting negotiated (its status is
  ignored), and, when a callback is given, the report descriptor discovered and
  fetched. \<open>None\<close>: the scan of Method 2 does not return.
\<close>

definition claim_and_discover ::
  "build_config \<Rightarrow> driver_vars \<Rightarrow> callback option \<Rightarrow> nat \<Rightarrow> libusb_device \<Rightarrow> handle \<Rightarrow>
   USBDevice_t \<Rightarrow> (exit \<times> event list) option" where
  "claim_and_discover cfg vars callback devnum dev udev cur =
     (if fst (nut_usb_claim_interface cfg dev udev) \<noteq> LIBUSB_SUCCESS
      then Some (Fatal ''Can't claim USB device %04x:%04x (%s).'',
                 snd (nut_usb_claim_interface cfg dev udev) @ [Libusb_free_device_list])
      else
        let ea = snd (nut_usb_claim_interface cfg dev udev) @
                 [Upsdebugx 2 ''Claimed interface %d successfully''] @
                 snd (nut_usb_set_altinterface vars dev udev)
        in (case callback of
              None \<Rightarrow> Some (Return LIBUSB_SUCCESS, ea @ [Libusb_free_device_list])
            | Some cb \<Rightarrow>
                (case method2 devnum dev cur of
                   None \<Rightarrow> None
                 | Some (got2, e2) \<Rightarrow>
                     Some (fst (reconcile_and_fetch dev cb udev cur (fst (hid_desc_index cur))
                                  (fst (method1 dev udev (fst (hid_desc_index cur)))) got2),
                           ea @ snd (hid_desc_index cur) @
                           snd (method1 dev udev (fst (hid_desc_index cur))) @ e2 @
                           snd (reconcile_and_fetch dev cb udev cur (fst (hid_desc_index cur))
                                  (fst (method1 dev udev (fst (hid_desc_index cur)))) got2)))))"

text \<open>
  The label \<^verbatim>\<open>next_device\<close>: \<^verbatim>\<open>libusb_close(udev); continue;\<close>. Every other way out of
  the body is left as it is.
\<close>

definition next_device :: "handle \<Rightarrow> exit \<times> event list \<Rightarrow> exit \<times> event list" where
  "next_device udev r =
     (if fst r = Goto_next_device then (Continue, snd r @ [Libusb_close udev]) else r)"

text \<open>
  One iteration of the \<^verbatim>\<open>for\<close> loop, for the device at index \<open>devnum\<close>, started with
  \<^verbatim>\<open>*udevp\<close> and \<^verbatim>\<open>*curDevice\<close> as given; it answers how the body was left, the two
  afterwards and the events.
\<close>

definition open_candidate ::
  "build_config \<Rightarrow> driver_vars \<Rightarrow> 'p USBDeviceMatcher_t list \<Rightarrow> callback option \<Rightarrow> nat \<Rightarrow>
   libusb_device \<Rightarrow> handle option \<Rightarrow> USBDevice_t \<Rightarrow>
   (exit \<times> handle option \<times> USBDevice_t \<times> event list) option" where
  "open_candidate cfg vars matcher callback devnum dev udevp cur =
     (case identify_candidate devnum dev udevp cur of
        (Inl x, udevp', cur', e1) \<Rightarrow> Some (x, udevp', cur', e1)
      | (Inr udev, udevp', cur', e1) \<Rightarrow>
          (case match_chain 0 matcher cur' of
             (Some x, e2) \<Rightarrow>
               Some (fst (next_device udev (x, e2)), udevp', cur',
                     e1 @ snd (next_device udev (x, e2)))
           | (None, e2) \<Rightarrow>
               (case claim_and_discover cfg vars callback devnum dev udev cur' of
                  None \<Rightarrow> None
                | Some r \<Rightarrow>
                    Some (fst (next_device udev r), udevp', cur',
                          e1 @ e2 @ snd (next_device udev r)))))"

text \<open>How \<^verbatim>\<open>nut_libusb_open\<close> ends: it returns a status, or the process exits.\<close>

datatype outcome = Returned int | Exited string

text \<open>
  The \<^verbatim>\<open>for\<close> loop from index \<open>devnum\<close> over the devices left. The first component is
  \<open>None\<close> when the loop ran to the end of the list.
\<close>

fun open_loop ::
  "build_config \<Rightarrow> driver_vars \<Rightarrow> 'p USBDeviceMatcher_t list \<Rightarrow> callback option \<Rightarrow> nat \<Rightarrow>
   libusb_device list \<Rightarrow> handle option \<Rightarrow> USBDevice_t \<Rightarrow>
   (outcome option \<times> handle option \<times> USBDevice_t \<times> event list) option" where
  "open_loop cfg vars matcher callback devnum [] udevp cur = Some (None, udevp, cur, [])"
| "open_loop cfg vars matcher callback devnum (dev # devs) udevp cur =
     (case open_candidate cfg vars matcher callback devnum dev udevp cur of
        None \<Rightarrow> None
      | Some (Return r, udevp', cur', evs) \<Rightarrow> Some (Some (Returned r), udevp', cur', evs)
      | Some (Fatal msg, udevp', cur', evs) \<Rightarrow> Some (Some (Exited msg), udevp', cur', evs)
      | Some (_, udevp', cur', evs) \<Rightarrow>
          (case open_loop cfg vars matcher callback (Suc devnum) devs udevp' cur' of
             None \<Rightarrow> None
           | Some (out, udevp'', cur'', evs') \<Rightarrow> Some (out, udevp'', cur'', evs @ evs')))"

text \<open>
  The bus as one run of \<^verbatim>\<open>nut_libusb_open\<close> meets it: the status of \<^verbatim>\<open>libusb_init\<close> and
  the device list (\<^verbatim>\<open>devcount\<close> is its length; a failing \<^verbatim>\<open>libusb_get_device_list\<close>
  runs the loop no more often than the empty list does).
\<close>

record usb_bus =
  libusb_init_ret :: int
  device_list :: "libusb_device list"

definition nut_libusb_open ::
  "build_config \<Rightarrow> driver_vars \<Rightarrow> usb_bus \<Rightarrow> handle option \<Rightarrow> USBDevice_t \<Rightarrow>
   'p USBDeviceMatcher_t list \<Rightarrow> callback option \<Rightarrow>
   (outcome \<times> handle option \<times> USBDevice_t \<times> event list) option" where
  "nut_libusb_open cfg vars bus udevp curDevice matcher callback =
     (if libusb_init_ret bus \<noteq> LIBUSB_SUCCESS
      then Some (Exited ''Failed to init libusb (%s).'', udevp, curDevice,
                 [Libusb_init, Libusb_exit])
      else
        let pre = [Libusb_init] @
                  (if on_linux cfg then []
                   else (case udevp of None \<Rightarrow> [] | Some h \<Rightarrow> [Libusb_close h])) @
                  [Libusb_get_device_list]
        in (case open_loop cfg vars matcher callback 0 (device_list bus) udevp curDevice of
              None \<Rightarrow> None
            | Some (Some out, udevp', cur', evs) \<Rightarrow> Some (out, udevp', cur', pre @ evs)
            | Some (None, udevp', cur', evs) \<Rightarrow>
                Some (Returned LIBUSB_ERROR_NOT_FOUND, None, cur',
                      pre @ evs @
                      [Libusb_free_device_list,
                       Upsdebugx 2 ''No appropriate HID device found'', Fflush])))"

section \<open>Observers of the event list\<close>

text \<open>The claim attempts and the detach calls among the events.\<close>

fun is_claim :: "event \<Rightarrow> bool" where
  "is_claim (Libusb_claim_interface h i) = True"
| "is_claim e = False"

fun is_detach :: "event \<Rightarrow> bool" where
  "is_detach (Libusb_detach_kernel_driver h i) = True"
| "is_detach e = False"

definition claim_attempts :: "event list \<Rightarrow> nat" where
  "claim_attempts evs = length (filter is_claim evs)"

definition detach_calls :: "event list \<Rightarrow> nat" where
  "detach_calls evs = length (filter is_detach evs)"

text \<open>The lengths (\<^verbatim>\<open>wLength\<close>) of the control transfers among the events, in order.\<close>

fun transfer_lengths :: "event list \<Rightarrow> u16 list" where
  "transfer_lengths [] = []"
| "transfer_lengths (Libusb_control_transfer h bm rq v i n # es) = n # transfer_lengths es"
| "transfer_lengths (e # es) = transfer_lengths es"

text \<open>The log events: they touch neither the bus nor a buffer.\<close>

fun is_log :: "event \<Rightarrow> bool" where
  "is_log (Upsdebugx l m) = True"
| "is_log (Upsdebug_hex l m bs) = True"
| "is_log (Upslogx p m) = True"
| "is_log e = False"

text \<open>The matcher evaluations among the events, in order.\<close>

fun is_matches :: "event \<Rightarrow> bool" where
  "is_matches (Matches i d) = True"
| "is_matches e = False"

text \<open>
  A node lets the loop of lines 304 to 316 go on to the next node when its result is
  none of \<open>0\<close>, \<open>-1\<close> and \<open>-2\<close>.
\<close>

definition node_matches :: "USBDevice_t \<Rightarrow> 'p USBDeviceMatcher_t \<Rightarrow> bool" where
  "node_matches cur m =
     (matches (Some m) cur \<noteq> 0 \<and> matches (Some m) cur \<noteq> - 1 \<and> matches (Some m) cur \<noteq> - 2)"

text \<open>The events without the calls of \<^verbatim>\<open>free\<close>.\<close>

fun is_free :: "event \<Rightarrow> bool" where
  "is_free (Free p) = True"
| "is_free e = False"

definition without_frees ::
  "(exit \<times> handle option \<times> USBDevice_t \<times> event list) option \<Rightarrow>
   (exit \<times> handle option \<times> USBDevice_t \<times> event list) option" where
  "without_frees r =
     (case r of
        None \<Rightarrow> None
      | Some (x, u, c, evs) \<Rightarrow> Some (x, u, c, filter (\<lambda>e. \<not> is_free e) evs))"

text \<open>
  The handle that is open after a list of events, started with \<open>s\<close> the handle open
  before (\<open>None\<close>: no handle is open). The answer is \<open>None\<close> when the events break the
  discipline: a device is opened or the next candidate's descriptor is read while a
  handle is open, or a handle is closed that is not the open one.
\<close>

fun open_handle :: "handle option \<Rightarrow> event list \<Rightarrow> handle option option" where
  "open_handle s [] = Some s"
| "open_handle s (Libusb_get_device_descriptor n # es) =
     (if s = None then open_handle None es else None)"
| "open_handle s (Libusb_open n (Some h) # es) =
     (if s = None then open_handle (Some h) es else None)"
| "open_handle s (Libusb_close h # es) =
     (if s = Some h then open_handle None es else None)"
| "open_handle s (e # es) = open_handle s es"

text \<open>The events that open_handle looks at; every other event leaves it as it is.\<close>

fun handle_event :: "event \<Rightarrow> bool" where
  "handle_event (Libusb_get_device_descriptor n) = True"
| "handle_event (Libusb_open n r) = True"
| "handle_event (Libusb_close h) = True"
| "handle_event e = False"

text \<open>
  The parts of a result of \<^verbatim>\<open>nut_libusb_open\<close>: how it ended, \<^verbatim>\<open>*udevp\<close> afterwards, and
  the events (\<open>[]\<close> when there is no result).
\<close>

definition outcome_of :: "('a \<times> 'b \<times> 'c \<times> event list) option \<Rightarrow> 'a option" where
  "outcome_of r = (case r of None \<Rightarrow> None | Some (x, u, c, evs) \<Rightarrow> Some x)"

definition udevp_of :: "('a \<times> 'b \<times> 'c \<times> event list) option \<Rightarrow> 'b option" where
  "udevp_of r = (case r of None \<Rightarrow> None | Some (x, u, c, evs) \<Rightarrow> Some u)"

definition events_of :: "('a \<times> 'b \<times> 'c \<times> event list) option \<Rightarrow> event list" where
  "events_of r = (case r of None \<Rightarrow> [] | Some (x, u, c, evs) \<Rightarrow> evs)"

section \<open>Example inputs\<close>

text \<open>
  A transport on which every control and interrupt transfer stalls and clearing the
  halt fails with \<^verbatim>\<open>LIBUSB_ERROR_NO_DEVICE\<close>.
\<close>

definition stalling_transport :: transport where
  "stalling_transport =
     \<lparr>control_transfer = (\<lambda>h bm rq v i n. (LIBUSB_ERROR_PIPE, [])),
      get_string_descriptor_ascii = (\<lambda>h i. (LIBUSB_ERROR_PIPE, [])),
      interrupt_transfer = (\<lambda>h ep n. (LIBUSB_ERROR_PIPE, 0)),
      clear_halt = (\<lambda>h ep. LIBUSB_ERROR_NO_DEVICE)\<rparr>"

text \<open>The build with only the explicit detach, on Linux.\<close>

definition detach_build :: build_config where
  "detach_build =
     \<lparr>have_libusb_kernel_driver_active = False,
      have_libusb_set_auto_detach_kernel_driver = False,
      have_libusb_detach_kernel_driver = True,
      on_linux = True\<rparr>"

text \<open>
  A transport of a HID device: the HID descriptor (at index 0 or 1) announces a report
  descriptor of 16 bytes, every other control transfer delivers as many zero bytes as
  asked for; string 1 is the manufacturer, any other string the product.
\<close>

definition hid_transport :: transport where
  "hid_transport =
     \<lparr>control_transfer =
        (\<lambda>h bm rq v i n.
           if v = 0x2100 \<or> v = 0x2101
           then (9, [9, 0x21, 0x10, 0x01, 0x21, 0x01, 0x22, 0x10, 0x00])
           else (uint n, replicate (unat n) 0)),
      get_string_descriptor_ascii = (\<lambda>h i. if i = 1 then (5, ''EATON'') else (3, ''UPS'')),
      interrupt_transfer = (\<lambda>h ep n. (0, n)),
      clear_halt = (\<lambda>h ep. 0)\<rparr>"

text \<open>
  A device with the given vendor id and release code that opens as handle 7, can be
  claimed at once, and whose interface carries a HID descriptor announcing 32 bytes
  among its extra bytes.
\<close>

definition example_device :: "u16 \<Rightarrow> u16 \<Rightarrow> libusb_device" where
  "example_device vendor release =
     \<lparr>get_device_descriptor =
        (0, \<lparr>idVendor = vendor, idProduct = 0xFFFF, bcdDevice_d = release,
             iManufacturer = 1, iProduct = 2, iSerialNumber = 0\<rparr>),
      open_result = (0, 7),
      get_bus_number = 1,
      malloc_ok = True,
      strdup_ok = (\<lambda>s. True),
      io = hid_transport,
      kernel_driver_active = 0,
      set_auto_detach_kernel_driver = 0,
      claim_interface = (\<lambda>k. 0),
      detach_kernel_driver = (\<lambda>k. 0),
      set_interface_alt_setting = (\<lambda>a. 0),
      get_config_descriptor = 0,
      extra = [9, 0x21, 0x10, 0x01, 0x21, 0x01, 0x22, 0x20, 0x00]\<rparr>"

text \<open>The same device when another driver keeps the interface: no claim succeeds.\<close>

definition busy_device :: libusb_device where
  "busy_device =
     (example_device 0x463 0x0202)
       \<lparr>claim_interface :=
          (\<lambda>k. if k = 3 then LIBUSB_ERROR_ACCESS else LIBUSB_ERROR_BUSY),
        detach_kernel_driver := (\<lambda>k. LIBUSB_ERROR_NOT_FOUND)\<rparr>"

text \<open>No driver variable set; callbacks that accept and that reject every device.\<close>

definition no_vars :: driver_vars where
  "no_vars =
     \<lparr>testvar_usb_set_altinterface = False,
      getval_usb_set_altinterface = None,
      str_to_int = (\<lambda>s n. (False, n))\<rparr>"

definition accept_all :: callback where
  "accept_all = (\<lambda>udev hd rdbuf rdlen. 1)"

definition reject_all :: callback where
  "reject_all = (\<lambda>udev hd rdbuf rdlen. 0)"

text \<open>Matcher nodes: one comparing the vendor id, one answering a fixed value.\<close>

definition vendor_matcher :: "u16 \<Rightarrow> unit USBDeviceMatcher_t" where
  "vendor_matcher v =
     \<lparr>match_function = (\<lambda>d p. if VendorID d = v then 1 else 0), privdata = ()\<rparr>"

definition const_matcher :: "int \<Rightarrow> unit USBDeviceMatcher_t" where
  "const_matcher r = \<lparr>match_function = (\<lambda>d p. r), privdata = ()\<rparr>"

text \<open>A caller's record left over from an earlier candidate.\<close>

definition stale_record :: USBDevice_t where
  "stale_record =
     \<lparr>VendorID = 0x051D, ProductID = 0x0002, Vendor = Some ''APC'', Product = Some ''Back-UPS'',
      Serial = Some ''4B1234'', Bus = Some ''002'', bcdDevice = 0x0106\<rparr>"

lemmas example_defs =
  stalling_transport_def detach_build_def hid_transport_def example_device_def
  busy_device_def no_vars_def accept_all_def reject_all_def vendor_matcher_def
  const_matcher_def stale_record_def

lemmas model_defs =
  nut_libusb_open_def open_candidate_def identify_candidate_def read_string_def
  fmt_03d_def identity_log_def oom_error_def claim_and_discover_def
  nut_usb_claim_interface_def nut_usb_set_altinterface_def hid_desc_index_def method1_def
  method2_def skip_method2_def attempt_method2_def reconcile_and_fetch_def reconcile_def
  fetch_descriptor_def next_device_def desc_wValue_def report_length_def
  std_in_interface_def USBDevice_zero_def matches_def Let_def events_of_def outcome_of_def
  udevp_of_def usb_if_num_def MAX_REPORT_SIZE_def

section \<open>Properties\<close>

subsection \<open>Error classifier\<close>

text \<open>
  Claim C9. The error classifier returns its status unchanged. A non-negative status
  gives no output. A status among invalid-parameter, interrupted, no-memory, time-out
  and overflow gives exactly one message on \<^verbatim>\<open>upsdebugx\<close> at level 2. A status among
  busy, no-device, access, I/O, not-found, pipe, not-supported and other, and any
  other negative status, gives exactly one message on \<^verbatim>\<open>upslogx\<close> at priority
  \<^verbatim>\<open>LOG_DEBUG\<close>.
\<close>

theorem logerror_classifies:
  "fst (nut_usb_logerror ret desc) = ret \<and>
   (0 \<le> ret \<longrightarrow> snd (nut_usb_logerror ret desc) = []) \<and>
   (ret \<in> {LIBUSB_ERROR_INVALID_PARAM, LIBUSB_ERROR_INTERRUPTED, LIBUSB_ERROR_NO_MEM,
            LIBUSB_ERROR_TIMEOUT, LIBUSB_ERROR_OVERFLOW}
      \<longrightarrow> snd (nut_usb_logerror ret desc) = [Upsdebugx 2 desc]) \<and>
   (ret \<in> {LIBUSB_ERROR_BUSY, LIBUSB_ERROR_NO_DEVICE, LIBUSB_ERROR_ACCESS, LIBUSB_ERROR_IO,
            LIBUSB_ERROR_NOT_FOUND, LIBUSB_ERROR_PIPE, LIBUSB_ERROR_NOT_SUPPORTED,
            LIBUSB_ERROR_OTHER}
      \<longrightarrow> snd (nut_usb_logerror ret desc) = [Upslogx LOG_DEBUG desc]) \<and>
   (ret < 0 \<and> ret \<notin> {LIBUSB_ERROR_INVALID_PARAM, LIBUSB_ERROR_INTERRUPTED,
                      LIBUSB_ERROR_NO_MEM, LIBUSB_ERROR_TIMEOUT, LIBUSB_ERROR_OVERFLOW}
      \<longrightarrow> snd (nut_usb_logerror ret desc) = [Upslogx LOG_DEBUG desc])"
  by (auto simp: nut_usb_logerror_def libusb_error_defs)

theorem logerror_classifies_witness:
  "nut_usb_logerror LIBUSB_ERROR_TIMEOUT ''get'' = (- 7, [Upsdebugx 2 ''get'']) \<and>
   nut_usb_logerror LIBUSB_ERROR_NO_DEVICE ''get'' = (- 4, [Upslogx LOG_DEBUG ''get'']) \<and>
   nut_usb_logerror (- 1000) ''get'' = (- 1000, [Upslogx LOG_DEBUG ''get'']) \<and>
   nut_usb_logerror 8 ''get'' = (8, [])"
  using logerror_classifies [of LIBUSB_ERROR_TIMEOUT "''get''"]
    logerror_classifies [of LIBUSB_ERROR_NO_DEVICE "''get''"]
    logerror_classifies [of "- 1000" "''get''"]
    logerror_classifies [of 8 "''get''"]
  by (simp add: libusb_error_defs prod_eq_iff)

subsection \<open>Transfer primitives\<close>

text \<open>
  Claim C4. On a live handle, when the control transfer of \<^verbatim>\<open>nut_libusb_get_report\<close>
  or of \<^verbatim>\<open>nut_libusb_set_report\<close> answers with the stall status \<^verbatim>\<open>LIBUSB_ERROR_PIPE\<close>,
  the function returns 0, and its events are the transfer alone (with the entry
  message of the get): nothing is logged as an error and no error code reaches the
  caller.
\<close>

theorem feature_report_stall:
  "(fst (control_transfer T h feature_in 0x01 (feature_wValue ReportId)
          (word_of_int usb_if_num) (word_of_int ReportSize)) = LIBUSB_ERROR_PIPE
     \<longrightarrow> fst (nut_libusb_get_report T (Some h) ReportId ReportSize) = 0 \<and>
         snd (snd (nut_libusb_get_report T (Some h) ReportId ReportSize)) =
           [Upsdebugx 4 ''Entering libusb_get_report'',
            Libusb_control_transfer h feature_in 0x01 (feature_wValue ReportId)
              (word_of_int usb_if_num) (word_of_int ReportSize)]) \<and>
   (fst (control_transfer T h feature_out 0x09 (feature_wValue ReportId)
          (word_of_int usb_if_num) (word_of_int ReportSize)) = LIBUSB_ERROR_PIPE
     \<longrightarrow> nut_libusb_set_report T (Some h) ReportId ReportSize =
           (0, [Libusb_control_transfer h feature_out 0x09 (feature_wValue ReportId)
                  (word_of_int usb_if_num) (word_of_int ReportSize)]))"
  by (simp add: nut_libusb_get_report_def nut_libusb_set_report_def Let_def
      split: prod.splits)

theorem feature_report_stall_witness:
  "fst (control_transfer stalling_transport 4 feature_in 0x01 (feature_wValue 7)
          (word_of_int usb_if_num) (word_of_int 8)) = LIBUSB_ERROR_PIPE \<and>
   fst (nut_libusb_get_report stalling_transport (Some 4) 7 8) = 0 \<and>
   fst (control_transfer stalling_transport 4 feature_out 0x09 (feature_wValue 7)
          (word_of_int usb_if_num) (word_of_int 8)) = LIBUSB_ERROR_PIPE \<and>
   fst (nut_libusb_set_report stalling_transport (Some 4) 7 8) = 0"
  using feature_report_stall [of stalling_transport 4 7 8]
  by (simp add: stalling_transport_def)

text \<open>
  Claim C3. On a live handle, when the interrupt transfer of
  \<^verbatim>\<open>nut_libusb_get_interrupt\<close> answers with the stall status, the halt is cleared on
  endpoint \<^verbatim>\<open>0x81\<close>, and the status of that clearing is what the error classifier
  receives and what the caller gets back.
\<close>

theorem interrupt_stall:
  "fst (interrupt_transfer T h 0x81 bufsize) = LIBUSB_ERROR_PIPE \<Longrightarrow>
   nut_libusb_get_interrupt T (Some h) bufsize =
     (clear_halt T h 0x81,
      [Libusb_interrupt_transfer h 0x81 bufsize, Libusb_clear_halt h 0x81] @
      snd (nut_usb_logerror (clear_halt T h 0x81) ''nut_libusb_get_interrupt''))"
  by (auto simp: nut_libusb_get_interrupt_def Let_def nut_usb_logerror_def libusb_error_defs
      split: prod.splits)

theorem interrupt_stall_witness:
  "fst (interrupt_transfer stalling_transport 4 0x81 8) = LIBUSB_ERROR_PIPE \<and>
   nut_libusb_get_interrupt stalling_transport (Some 4) 8 =
     (LIBUSB_ERROR_NO_DEVICE,
      [Libusb_interrupt_transfer 4 0x81 8, Libusb_clear_halt 4 0x81,
       Upslogx LOG_DEBUG ''nut_libusb_get_interrupt''])"
  using interrupt_stall [of stalling_transport 4 8]
  by (simp add: stalling_transport_def nut_usb_logerror_def libusb_error_defs)

subsection \<open>Interface acquisition\<close>

text \<open>
  The loop entered with the counter at \<open>r\<close> after \<open>k\<close> attempts: it detaches at most
  \<open>r\<close> times, claims once more often than it detaches, and fails only with the status
  of attempt \<open>k + r\<close> after \<open>r\<close> detach calls, every attempt having failed.
\<close>

lemma claim_loop_bound:
  "detach_calls (snd (claim_loop dev udev r k)) \<le> r \<and>
   claim_attempts (snd (claim_loop dev udev r k)) = Suc (detach_calls (snd (claim_loop dev udev r k))) \<and>
   (fst (claim_loop dev udev r k) \<noteq> LIBUSB_SUCCESS \<longrightarrow>
      detach_calls (snd (claim_loop dev udev r k)) = r \<and>
      fst (claim_loop dev udev r k) = claim_interface dev (k + r) \<and>
      (\<forall>j\<le>r. claim_interface dev (k + j) \<noteq> LIBUSB_SUCCESS)) \<and>
   (fst (claim_loop dev udev r k) = LIBUSB_SUCCESS \<longrightarrow>
      claim_interface dev (k + detach_calls (snd (claim_loop dev udev r k))) = LIBUSB_SUCCESS)"
proof (induction r arbitrary: k)
  case 0
  show ?case by (simp add: detach_calls_def claim_attempts_def detach_log_def)
next
  case (Suc r)
  have IH: "detach_calls (snd (claim_loop dev udev r (Suc k))) \<le> r"
    "claim_attempts (snd (claim_loop dev udev r (Suc k))) = Suc (detach_calls (snd (claim_loop dev udev r (Suc k))))"
    "fst (claim_loop dev udev r (Suc k)) \<noteq> LIBUSB_SUCCESS \<Longrightarrow>
      detach_calls (snd (claim_loop dev udev r (Suc k))) = r \<and>
      fst (claim_loop dev udev r (Suc k)) = claim_interface dev (Suc k + r) \<and>
      (\<forall>j\<le>r. claim_interface dev (Suc k + j) \<noteq> LIBUSB_SUCCESS)"
    "fst (claim_loop dev udev r (Suc k)) = LIBUSB_SUCCESS \<Longrightarrow>
      claim_interface dev (Suc k + detach_calls (snd (claim_loop dev udev r (Suc k)))) = LIBUSB_SUCCESS"
    using Suc.IH [of "Suc k"] by simp_all
  show ?case
  proof (cases "claim_interface dev k = LIBUSB_SUCCESS")
    case True
    then show ?thesis by (simp add: detach_calls_def claim_attempts_def)
  next
    case False
    have all: "(\<forall>j\<le>Suc r. claim_interface dev (k + j) \<noteq> LIBUSB_SUCCESS)"
      if "\<forall>j\<le>r. claim_interface dev (Suc k + j) \<noteq> LIBUSB_SUCCESS"
    proof (intro allI impI)
      fix j assume "j \<le> Suc r"
      show "claim_interface dev (k + j) \<noteq> LIBUSB_SUCCESS"
      proof (cases j)
        case 0 with False show ?thesis by simp
      next
        case (Suc j')
        with \<open>j \<le> Suc r\<close> that show ?thesis by simp
      qed
    qed
    from False IH all show ?thesis
      by (simp add: detach_calls_def claim_attempts_def detach_log_def)
  qed
qed

text \<open>
  Claim C5. On the explicit-detach path (\<^verbatim>\<open>HAVE_LIBUSB_DETACH_KERNEL_DRIVER\<close>),
  \<^verbatim>\<open>nut_usb_claim_interface\<close> calls \<^verbatim>\<open>libusb_detach_kernel_driver\<close> at most 3 times and
  \<^verbatim>\<open>libusb_claim_interface\<close> once more often than that, so at most 4 times: the loop
  ends. When it fails, it has detached 3 times, all 4 claim attempts (numbered 0 to 3)
  have failed, and the status returned is the one of the last attempt, whatever the
  detach calls answered. When it succeeds, the attempt after the last detach was the
  successful one.
\<close>

theorem claim_retries_bounded:
  "have_libusb_detach_kernel_driver cfg \<Longrightarrow>
   detach_calls (snd (nut_usb_claim_interface cfg dev udev)) \<le> 3 \<and>
   claim_attempts (snd (nut_usb_claim_interface cfg dev udev)) =
     Suc (detach_calls (snd (nut_usb_claim_interface cfg dev udev))) \<and>
   (fst (nut_usb_claim_interface cfg dev udev) \<noteq> LIBUSB_SUCCESS \<longrightarrow>
      detach_calls (snd (nut_usb_claim_interface cfg dev udev)) = 3 \<and>
      fst (nut_usb_claim_interface cfg dev udev) = claim_interface dev 3 \<and>
      (\<forall>j\<le>3. claim_interface dev j \<noteq> LIBUSB_SUCCESS)) \<and>
   (fst (nut_usb_claim_interface cfg dev udev) = LIBUSB_SUCCESS \<longrightarrow>
      claim_interface dev (detach_calls (snd (nut_usb_claim_interface cfg dev udev))) = LIBUSB_SUCCESS)"
  using claim_loop_bound [of dev udev 3 0]
  by (simp add: nut_usb_claim_interface_def Let_def auto_detach_def detach_calls_def claim_attempts_def)

theorem claim_retries_bounded_witness:
  "have_libusb_detach_kernel_driver detach_build \<and>
   detach_calls (snd (nut_usb_claim_interface detach_build busy_device 7)) = 3 \<and>
   claim_attempts (snd (nut_usb_claim_interface detach_build busy_device 7)) = 4 \<and>
   fst (nut_usb_claim_interface detach_build busy_device 7) = LIBUSB_ERROR_ACCESS \<and>
   detach_kernel_driver busy_device 2 = LIBUSB_ERROR_NOT_FOUND"
  using claim_retries_bounded [of detach_build busy_device 7]
  by (simp add: detach_build_def busy_device_def example_device_def libusb_error_defs
      nut_usb_claim_interface_def numeral_3_eq_3 detach_log_def claim_attempts_def
      detach_calls_def)

subsection \<open>The matcher chain\<close>

lemma match_chain_pass:
  "fst (match_chain i ms cur) = None \<longleftrightarrow> (\<forall>m\<in>set ms. node_matches cur m)"
  by (induction ms arbitrary: i) (auto simp: node_matches_def)

lemma match_chain_evaluated:
  "filter is_matches (snd (match_chain i ms cur)) =
     map (\<lambda>j. Matches j cur)
       [i ..< i + min (length ms) (Suc (length (takeWhile (node_matches cur) ms)))]"
proof (induction ms arbitrary: i)
  case Nil
  show ?case by simp
next
  case (Cons m ms)
  show ?case
  proof (cases "node_matches cur m")
    case True
    define n where "n = min (length ms) (Suc (length (takeWhile (node_matches cur) ms)))"
    from True have step:
      "snd (match_chain i (m # ms) cur) = Matches i cur # snd (match_chain (Suc i) ms cur)"
      by (simp add: node_matches_def)
    have cnt: "i + min (length (m # ms)) (Suc (length (takeWhile (node_matches cur) (m # ms)))) =
        Suc i + n"
      using True by (simp add: n_def)
    have IH: "filter is_matches (snd (match_chain (Suc i) ms cur)) =
        map (\<lambda>j. Matches j cur) [Suc i ..< Suc i + n]"
      using Cons.IH [of "Suc i"] by (simp only: n_def)
    have upt: "[i ..< Suc i + n] = i # [Suc i ..< Suc i + n]"
      by (rule upt_conv_Cons) simp
    have "filter is_matches (Matches i cur # snd (match_chain (Suc i) ms cur)) =
        Matches i cur # filter is_matches (snd (match_chain (Suc i) ms cur))"
      by simp
    also have "\<dots> = map (\<lambda>j. Matches j cur) (i # [Suc i ..< Suc i + n])"
      by (simp only: IH list.map)
    finally show ?thesis
      by (simp only: step cnt upt)
  next
    case False
    then have "filter is_matches (snd (match_chain i (m # ms) cur)) = [Matches i cur]"
      by (auto simp: node_matches_def)
    moreover have "min (length (m # ms)) (Suc (length (takeWhile (node_matches cur) (m # ms)))) = 1"
      using False by simp
    ultimately show ?thesis by simp
  qed
qed

lemma match_chain_fatal:
  "fst (match_chain i ms cur) = Some (Fatal ''matcher'') \<longleftrightarrow>
     (\<exists>m\<in>set (take 1 (dropWhile (node_matches cur) ms)). matches (Some m) cur = - 1)"
  by (induction ms arbitrary: i) (auto simp: node_matches_def)

lemma match_chain_reject:
  "fst (match_chain i ms cur) = Some Goto_next_device \<longleftrightarrow>
     (\<exists>m\<in>set (take 1 (dropWhile (node_matches cur) ms)).
        matches (Some m) cur = 0 \<or> matches (Some m) cur = - 2)"
  by (induction ms arbitrary: i) (auto simp: node_matches_def)

text \<open>
  Claim C7. A node lets the chain go on (a match) when its result is none of \<open>0\<close>,
  \<open>-1\<close> and \<open>-2\<close>; \<open>0\<close> and \<open>-2\<close> (no match, unspecified error) reject the candidate;
  \<open>-1\<close> is the hard error. For every chain and every candidate record: the candidate
  passes the chain exactly when every node matches; the nodes evaluated are, in list
  order, the matching nodes before the first node that does not match, and that node:
  none after it is evaluated; the chain ends in the fatal exit exactly when that first
  node answered \<open>-1\<close>, and in \<^verbatim>\<open>goto next_device\<close> exactly when it answered \<open>0\<close> or
  \<open>-2\<close>. In \<^verbatim>\<open>nut_libusb_open\<close> the fatal exit ends the whole loop with the process exit
  \<^verbatim>\<open>matcher\<close>, whatever devices are left in the list, while the rejection closes the
  candidate's handle and continues with the next device.
\<close>

theorem matcher_chain:
  "(fst (match_chain i ms cur) = None \<longleftrightarrow> (\<forall>m\<in>set ms. node_matches cur m)) \<and>
   filter is_matches (snd (match_chain i ms cur)) =
     map (\<lambda>j. Matches j cur)
       [i ..< i + min (length ms) (Suc (length (takeWhile (node_matches cur) ms)))] \<and>
   (fst (match_chain i ms cur) = Some (Fatal ''matcher'') \<longleftrightarrow>
      (\<exists>m\<in>set (take 1 (dropWhile (node_matches cur) ms)). matches (Some m) cur = - 1)) \<and>
   (fst (match_chain i ms cur) = Some Goto_next_device \<longleftrightarrow>
      (\<exists>m\<in>set (take 1 (dropWhile (node_matches cur) ms)).
         matches (Some m) cur = 0 \<or> matches (Some m) cur = - 2)) \<and>
   (\<forall>udev udevp'.
      identify_candidate devnum dev udevp old = (Inr udev, udevp', cur, e1) \<and>
      fst (match_chain 0 ms cur) = Some (Fatal ''matcher'') \<longrightarrow>
      open_loop cfg vars ms callback devnum (dev # devs) udevp old =
        Some (Some (Exited ''matcher''), udevp', cur, e1 @ snd (match_chain 0 ms cur))) \<and>
   (\<forall>udev udevp'.
      identify_candidate devnum dev udevp old = (Inr udev, udevp', cur, e1) \<and>
      fst (match_chain 0 ms cur) = Some Goto_next_device \<longrightarrow>
      open_candidate cfg vars ms callback devnum dev udevp old =
        Some (Continue, udevp', cur, e1 @ snd (match_chain 0 ms cur) @ [Libusb_close udev]))"
proof -
  have fatal: "open_loop cfg vars ms callback devnum (dev # devs) udevp old =
        Some (Some (Exited ''matcher''), udevp', cur, e1 @ snd (match_chain 0 ms cur))"
    if "identify_candidate devnum dev udevp old = (Inr udev, udevp', cur, e1)"
      and "fst (match_chain 0 ms cur) = Some (Fatal ''matcher'')" for udev udevp'
    using that by (cases "match_chain 0 ms cur") (simp add: open_candidate_def next_device_def)
  have reject: "open_candidate cfg vars ms callback devnum dev udevp old =
        Some (Continue, udevp', cur, e1 @ snd (match_chain 0 ms cur) @ [Libusb_close udev])"
    if "identify_candidate devnum dev udevp old = (Inr udev, udevp', cur, e1)"
      and "fst (match_chain 0 ms cur) = Some Goto_next_device" for udev udevp'
    using that by (cases "match_chain 0 ms cur") (simp add: open_candidate_def next_device_def)
  from fatal reject show ?thesis
    using match_chain_pass [of i ms cur] match_chain_evaluated [of i ms cur]
      match_chain_fatal [of i ms cur] match_chain_reject [of i ms cur]
    by blast
qed

theorem matcher_chain_witness:
  "fst (match_chain 0 [const_matcher 1, vendor_matcher 0x463, const_matcher (- 1)]
         (USBDevice_zero\<lparr>VendorID := 0x09AE\<rparr>)) = Some Goto_next_device \<and>
   filter is_matches (snd (match_chain 0 [const_matcher 1, vendor_matcher 0x463, const_matcher (- 1)]
         (USBDevice_zero\<lparr>VendorID := 0x09AE\<rparr>))) =
     [Matches 0 (USBDevice_zero\<lparr>VendorID := 0x09AE\<rparr>),
      Matches 1 (USBDevice_zero\<lparr>VendorID := 0x09AE\<rparr>)] \<and>
   fst (match_chain 0 [const_matcher 1, vendor_matcher 0x09AE, const_matcher 5]
         (USBDevice_zero\<lparr>VendorID := 0x09AE\<rparr>)) = None \<and>
   fst (match_chain 0 [const_matcher (- 1), const_matcher 0]
         (USBDevice_zero\<lparr>VendorID := 0x09AE\<rparr>)) = Some (Fatal ''matcher'') \<and>
   outcome_of (open_loop detach_build no_vars [const_matcher (- 1)] (Some accept_all) 0
     [example_device 0x463 0x0202, example_device 0x051D 0x0106] None stale_record) =
     Some (Some (Exited ''matcher'')) \<and>
   filter handle_event (events_of (open_loop detach_build no_vars [const_matcher (- 1)]
     (Some accept_all) 0 [example_device 0x463 0x0202, example_device 0x051D 0x0106] None
     stale_record)) =
     [Libusb_get_device_descriptor 0, Libusb_open 0 (Some 7)]"
  using matcher_chain [where i = 0 and cur = "USBDevice_zero\<lparr>VendorID := 0x09AE\<rparr>"
      and ms = "[const_matcher 1, vendor_matcher 0x463, const_matcher (- 1)]"]
  by (simp add: model_defs example_defs libusb_error_defs node_matches_def)

subsection \<open>Identity of the candidate\<close>

lemma read_string_no_free:
  "read_string dev udev idx = (v, ev) \<Longrightarrow> filter is_free ev = [] \<and> filter (\<lambda>e. \<not> is_free e) ev = ev"
  by (auto simp: read_string_def Let_def split: prod.splits if_splits)

lemma identify_candidate_fresh:
  assumes "fst (get_device_descriptor dev) = LIBUSB_SUCCESS" "fst (open_result dev) = 0"
    and "identify_candidate devnum dev udevp cur = (r, u, c, evs)"
    and "identify_candidate devnum dev udevp' cur' = (r', u', c', evs')"
  shows "r = r' \<and> u = u' \<and> c = c' \<and>
     filter (\<lambda>e. \<not> is_free e) evs = filter (\<lambda>e. \<not> is_free e) evs' \<and>
     filter is_free evs = [Free (Vendor cur), Free (Product cur), Free (Serial cur), Free (Bus cur)]"
  using assms
  by (auto simp: identify_candidate_def Let_def oom_error_def identity_log_def
      split: prod.splits if_splits option.splits dest!: read_string_no_free)

text \<open>
  Claim C8. For every candidate whose device descriptor was read and that was opened,
  the four strings of the caller's record as it was before (\<^verbatim>\<open>Vendor\<close>, \<^verbatim>\<open>Product\<close>,
  \<^verbatim>\<open>Serial\<close>, \<^verbatim>\<open>Bus\<close>) are freed, these are the only calls of \<^verbatim>\<open>free\<close>, and the record
  afterwards is the one built from a zeroed record. Apart from the four calls of
  \<^verbatim>\<open>free\<close>, the whole iteration (how it ends, the record, the handle, every event, among
  them each matcher evaluation with the record it is given and the callback) is the
  same whatever the record and \<^verbatim>\<open>*udevp\<close> held before: nothing of an earlier candidate
  reaches the match evaluation.
\<close>

theorem identity_refreshed:
  assumes "fst (get_device_descriptor dev) = LIBUSB_SUCCESS" "fst (open_result dev) = 0"
  shows "without_frees (open_candidate cfg vars matcher callback devnum dev udevp cur) =
       without_frees (open_candidate cfg vars matcher callback devnum dev udevp' cur') \<and>
     filter is_free (snd (snd (snd (identify_candidate devnum dev udevp cur)))) =
       [Free (Vendor cur), Free (Product cur), Free (Serial cur), Free (Bus cur)] \<and>
     fst (snd (snd (identify_candidate devnum dev udevp cur))) =
       fst (snd (snd (identify_candidate devnum dev None USBDevice_zero)))"
proof -
  obtain r u c evs where a: "identify_candidate devnum dev udevp cur = (r, u, c, evs)"
    by (metis prod_cases4)
  obtain r' u'' c' evs' where b: "identify_candidate devnum dev udevp' cur' = (r', u'', c', evs')"
    by (metis prod_cases4)
  obtain r0 u0 c0 evs0 where z: "identify_candidate devnum dev None USBDevice_zero = (r0, u0, c0, evs0)"
    by (metis prod_cases4)
  note f = identify_candidate_fresh [OF assms a b]
  note g = identify_candidate_fresh [OF assms a z]
  have "without_frees (open_candidate cfg vars matcher callback devnum dev udevp cur) =
       without_frees (open_candidate cfg vars matcher callback devnum dev udevp' cur')"
    using f by (simp add: open_candidate_def a b without_frees_def split: sum.splits prod.splits option.splits)
  with f g a z show ?thesis by simp
qed

theorem identity_refreshed_witness:
  "fst (get_device_descriptor (example_device 0x463 0x0202)) = LIBUSB_SUCCESS \<and>
   fst (open_result (example_device 0x463 0x0202)) = 0 \<and>
   without_frees (open_candidate detach_build no_vars [vendor_matcher 0x051D] (Some accept_all) 1
       (example_device 0x463 0x0202) (Some 3) stale_record) =
     without_frees (open_candidate detach_build no_vars [vendor_matcher 0x051D] (Some accept_all) 1
       (example_device 0x463 0x0202) None USBDevice_zero) \<and>
   filter is_free (snd (snd (snd (identify_candidate 1 (example_device 0x463 0x0202) (Some 3)
       stale_record)))) =
     [Free (Some ''APC''), Free (Some ''Back-UPS''), Free (Some ''4B1234''), Free (Some ''002'')] \<and>
   fst (snd (snd (identify_candidate 1 (example_device 0x463 0x0202) (Some 3) stale_record))) =
     \<lparr>VendorID = 0x463, ProductID = 0xFFFF, Vendor = Some ''EATON'', Product = Some ''UPS'',
      Serial = None, Bus = Some ''001'', bcdDevice = 0x0202\<rparr> \<and>
   outcome_of (open_candidate detach_build no_vars [vendor_matcher 0x051D] (Some accept_all) 1
       (example_device 0x463 0x0202) (Some 3) stale_record) = Some Continue"
  using identity_refreshed [of "example_device 0x463 0x0202" detach_build no_vars
      "[vendor_matcher 0x051D]" "Some accept_all" 1 "Some 3" stale_record None USBDevice_zero]
  by (simp add: model_defs example_defs libusb_error_defs)

subsection \<open>Descriptor discovery\<close>


lemma fetch_descriptor_lengths:
  "transfer_lengths (snd (fetch_descriptor dev cb udev cur idx rdlen)) =
     (if unat rdlen \<le> MAX_REPORT_SIZE then [rdlen] else [])"
  by (simp add: fetch_descriptor_def Let_def split: prod.splits)

text \<open>
  Claim C2. When only Method 1 obtained a length, the only control transfer of the
  fetch stage asks for that length; when both methods obtained lengths and these
  differ, it asks for Method 2's length (in both cases the transfer is issued when the
  length is within \<^verbatim>\<open>MAX_REPORT_SIZE\<close>, and none is issued otherwise). When neither
  method obtained a length, the stage ends in \<^verbatim>\<open>goto next_device\<close> with one log message,
  and the candidate's handle is closed before the loop continues.
\<close>

theorem reconcile_lengths:
  "transfer_lengths (snd (reconcile_and_fetch dev cb udev cur idx (Some rdlen1) None)) =
     (if unat rdlen1 \<le> MAX_REPORT_SIZE then [rdlen1] else []) \<and>
   (rdlen1 \<noteq> rdlen2 \<longrightarrow>
      transfer_lengths (snd (reconcile_and_fetch dev cb udev cur idx (Some rdlen1) (Some rdlen2))) =
        (if unat rdlen2 \<le> MAX_REPORT_SIZE then [rdlen2] else [])) \<and>
   reconcile_and_fetch dev cb udev cur idx None None =
     (Goto_next_device, [Upsdebugx 2 ''Unable to retrieve any HID descriptor'']) \<and>
   next_device udev (reconcile_and_fetch dev cb udev cur idx None None) =
     (Continue, [Upsdebugx 2 ''Unable to retrieve any HID descriptor'', Libusb_close udev])"
  by (simp add: reconcile_and_fetch_def reconcile_def fetch_descriptor_lengths next_device_def)

theorem reconcile_lengths_witness:
  "transfer_lengths (snd (reconcile_and_fetch (example_device 0x463 0x0202) accept_all 7
       USBDevice_zero 1 (Some 0x10) None)) = [0x10] \<and>
   (0x10 :: u16) \<noteq> 0x20 \<and>
   transfer_lengths (snd (reconcile_and_fetch (example_device 0x463 0x0202) accept_all 7
       USBDevice_zero 1 (Some 0x10) (Some 0x20))) = [0x20] \<and>
   next_device 7 (reconcile_and_fetch (example_device 0x463 0x0202) accept_all 7
       USBDevice_zero 1 None None) =
     (Continue, [Upsdebugx 2 ''Unable to retrieve any HID descriptor'', Libusb_close 7])"
  using reconcile_lengths [where ?rdlen1.0 = "0x10" and ?rdlen2.0 = "0x20" and udev = 7
      and dev = "example_device 0x463 0x0202" and cb = accept_all and cur = USBDevice_zero
      and idx = 1]
  by (simp add: MAX_REPORT_SIZE_def next_device_def)

text \<open>
  Claim C6. When the reconciled length exceeds \<^verbatim>\<open>MAX_REPORT_SIZE\<close> (\<^verbatim>\<open>0x1800\<close>), the
  fetch stage ends in \<^verbatim>\<open>goto next_device\<close>; all its events are log messages, so no
  control transfer is issued (nothing is written into \<^verbatim>\<open>rdbuf\<close>) and the callback is not
  called; the handle is closed and the loop continues with the next device.
\<close>

theorem oversize_rejected:
  "reconcile got1 got2 = Some rdlen \<Longrightarrow> unat rdlen > MAX_REPORT_SIZE \<Longrightarrow>
   fst (reconcile_and_fetch dev cb udev cur idx got1 got2) = Goto_next_device \<and>
   (\<forall>e\<in>set (snd (reconcile_and_fetch dev cb udev cur idx got1 got2)). is_log e) \<and>
   transfer_lengths (snd (reconcile_and_fetch dev cb udev cur idx got1 got2)) = [] \<and>
   next_device udev (reconcile_and_fetch dev cb udev cur idx got1 got2) =
     (Continue, snd (reconcile_and_fetch dev cb udev cur idx got1 got2) @ [Libusb_close udev])"
  by (simp add: reconcile_and_fetch_def fetch_descriptor_def next_device_def)

theorem oversize_rejected_witness:
  "reconcile (Some 0x10) (Some 0x2000) = Some 0x2000 \<and>
   unat (0x2000 :: u16) > MAX_REPORT_SIZE \<and>
   reconcile_and_fetch (example_device 0x463 0x0202) accept_all 7 USBDevice_zero 1
       (Some 0x10) (Some 0x2000) =
     (Goto_next_device,
      [Upsdebugx 2 ''Warning: two different HID descriptors retrieved (Reportlen = %u vs. %u)'',
       Upsdebugx 2 ''HID descriptor length %d'',
       Upsdebugx 2 ''HID descriptor too long %u (max %lu)'']) \<and>
   snd (next_device 7 (reconcile_and_fetch (example_device 0x463 0x0202) accept_all 7
       USBDevice_zero 1 (Some 0x10) (Some 0x2000))) =
     [Upsdebugx 2 ''Warning: two different HID descriptors retrieved (Reportlen = %u vs. %u)'',
      Upsdebugx 2 ''HID descriptor length %d'',
      Upsdebugx 2 ''HID descriptor too long %u (max %lu)'', Libusb_close 7]"
  using oversize_rejected [where ?got1.0 = "Some 0x10" and ?got2.0 = "Some 0x2000"
      and rdlen = "0x2000" and udev = 7 and dev = "example_device 0x463 0x0202"
      and cb = accept_all and cur = USBDevice_zero and idx = 1]
  by (simp add: MAX_REPORT_SIZE_def reconcile_def reconcile_and_fetch_def fetch_descriptor_def
      prod_eq_iff)

subsection \<open>Handles across the enumeration\<close>

lemma open_handle_append:
  "open_handle s (xs @ ys) =
     (case open_handle s xs of None \<Rightarrow> None | Some s' \<Rightarrow> open_handle s' ys)"
  by (induction s xs rule: open_handle.induct) simp_all

lemma open_handle_neutral:
  "\<forall>e\<in>set es. \<not> handle_event e \<Longrightarrow> open_handle s es = Some s"
  by (induction s es rule: open_handle.induct) simp_all

lemma scan_extra_neutral_aux:
  assumes "scan_extra ex i acc = Some y"
  shows "(\<forall>e\<in>set acc. \<not> handle_event e) \<longrightarrow> (\<forall>e\<in>set (snd y). \<not> handle_event e)"
proof (rule scan_extra.raw_induct
    [where P = "\<lambda>ex i acc y. (\<forall>e\<in>set acc. \<not> handle_event e) \<longrightarrow>
                  (\<forall>e\<in>set (snd y). \<not> handle_event e)", OF _ assms], goal_cases)
  case (1 scan ex i acc y)
  from 1(2) show ?case
    by (auto split: if_splits dest!: 1(1))
qed

lemma scan_extra_neutral:
  "scan_extra ex i acc = Some (got, evs) \<Longrightarrow> \<forall>e\<in>set acc. \<not> handle_event e \<Longrightarrow>
   \<forall>e\<in>set evs. \<not> handle_event e"
  using scan_extra_neutral_aux [of ex i acc "(got, evs)"] by simp

lemma claim_loop_neutral: "\<forall>e\<in>set (snd (claim_loop dev udev r k)). \<not> handle_event e"
  by (induction r arbitrary: k) (auto simp: detach_log_def)

lemma claim_interface_neutral:
  "\<forall>e\<in>set (snd (nut_usb_claim_interface cfg dev udev)). \<not> handle_event e"
  using claim_loop_neutral [of dev udev 3 0]
  by (auto simp: nut_usb_claim_interface_def auto_detach_def Let_def)

lemma set_altinterface_neutral:
  "\<forall>e\<in>set (snd (nut_usb_set_altinterface vars dev udev)). \<not> handle_event e"
  by (auto simp: nut_usb_set_altinterface_def Let_def split: option.splits prod.splits if_splits)

lemma method1_neutral: "\<forall>e\<in>set (snd (method1 dev udev idx)). \<not> handle_event e"
  by (auto simp: method1_def Let_def split: prod.splits)

lemma method2_neutral:
  "method2 devnum dev cur = Some (got, evs) \<Longrightarrow> \<forall>e\<in>set evs. \<not> handle_event e"
  using scan_extra_neutral [of "extra dev" 0 "[]"]
  by (auto simp: method2_def attempt_method2_def split: if_splits option.splits)

lemma fetch_descriptor_neutral:
  "\<forall>e\<in>set (snd (fetch_descriptor dev cb udev cur idx rdlen)). \<not> handle_event e"
  by (auto simp: fetch_descriptor_def Let_def split: prod.splits if_splits)

lemma reconcile_and_fetch_neutral:
  "\<forall>e\<in>set (snd (reconcile_and_fetch dev cb udev cur idx g1 g2)). \<not> handle_event e"
  using fetch_descriptor_neutral [of dev cb udev cur idx]
  by (auto simp: reconcile_and_fetch_def split: option.splits)

lemma hid_desc_index_neutral: "\<forall>e\<in>set (snd (hid_desc_index cur)). \<not> handle_event e"
  by (simp add: hid_desc_index_def)

lemma claim_and_discover_neutral:
  "claim_and_discover cfg vars callback devnum dev udev cur = Some (x, evs) \<Longrightarrow>
   \<forall>e\<in>set evs. \<not> handle_event e"
  using claim_interface_neutral [of cfg dev udev] set_altinterface_neutral [of vars dev udev]
    method1_neutral [of dev udev "fst (hid_desc_index cur)"] hid_desc_index_neutral [of cur]
    method2_neutral [of devnum dev cur]
    reconcile_and_fetch_neutral [of dev _ udev cur]
  by (auto simp: claim_and_discover_def Let_def split: if_splits option.splits)

lemma match_chain_neutral: "\<forall>e\<in>set (snd (match_chain i ms cur)). \<not> handle_event e"
  by (induction ms arbitrary: i) auto

lemma read_string_neutral: "\<forall>e\<in>set (snd (read_string dev udev idx)). \<not> handle_event e"
  by (auto simp: read_string_def Let_def split: prod.splits)

lemma read_string_neutral':
  "read_string dev udev idx = (v, ev) \<Longrightarrow> \<forall>e\<in>set ev. \<not> handle_event e"
  using read_string_neutral [of dev udev idx] by simp

lemma identify_candidate_handle:
  "identify_candidate devnum dev udevp cur = (r, u', c', evs) \<Longrightarrow>
   open_handle None evs = Some (case r of Inl Continue \<Rightarrow> None | _ \<Rightarrow> Some (snd (open_result dev)))"
  by (auto simp: identify_candidate_def Let_def oom_error_def identity_log_def
      open_handle_append open_handle_neutral
      split: prod.splits if_splits option.splits dest!: read_string_neutral')

lemma identify_candidate_exit:
  "identify_candidate devnum dev udevp cur = (r, u', c', evs) \<Longrightarrow>
   (case r of
      Inl x \<Rightarrow> x = Continue \<or> x = Fatal ''Out of memory''
    | Inr udev \<Rightarrow> udev = snd (open_result dev) \<and> u' = Some udev)"
  by (auto simp: identify_candidate_def Let_def oom_error_def
      split: prod.splits if_splits option.splits)

lemma fetch_descriptor_exit:
  "fst (fetch_descriptor dev cb udev cur idx rdlen) = Goto_next_device \<or>
   fst (fetch_descriptor dev cb udev cur idx rdlen) = Return LIBUSB_SUCCESS"
  by (simp add: fetch_descriptor_def Let_def split: prod.splits)

lemma reconcile_and_fetch_exit:
  "fst (reconcile_and_fetch dev cb udev cur idx g1 g2) = Goto_next_device \<or>
   fst (reconcile_and_fetch dev cb udev cur idx g1 g2) = Return LIBUSB_SUCCESS"
  using fetch_descriptor_exit [of dev cb udev cur idx]
  by (simp add: reconcile_and_fetch_def split: option.splits)

lemma claim_and_discover_exit:
  "claim_and_discover cfg vars callback devnum dev udev cur = Some (x, evs) \<Longrightarrow>
   x = Goto_next_device \<or> x = Return LIBUSB_SUCCESS \<or>
   x = Fatal ''Can't claim USB device %04x:%04x (%s).''"
  using reconcile_and_fetch_exit [of dev _ udev cur]
  by (auto simp: claim_and_discover_def Let_def split: if_splits option.splits)

lemma match_chain_exit:
  "fst (match_chain i ms cur) = None \<or> fst (match_chain i ms cur) = Some Goto_next_device \<or>
   fst (match_chain i ms cur) = Some (Fatal ''matcher'')"
  by (induction ms arbitrary: i) auto

lemma next_device_handle:
  "\<forall>e\<in>set evs. \<not> handle_event e \<Longrightarrow>
   x = Goto_next_device \<or> x = Return LIBUSB_SUCCESS \<or> (\<exists>msg. x = Fatal msg) \<Longrightarrow>
   fst (next_device udev (x, evs)) \<noteq> Goto_next_device \<and>
   open_handle (Some udev) (snd (next_device udev (x, evs))) =
     Some (if fst (next_device udev (x, evs)) = Continue then None else Some udev) \<and>
   (\<forall>r. fst (next_device udev (x, evs)) = Return r \<longrightarrow> r = LIBUSB_SUCCESS)"
  by (auto simp: next_device_def open_handle_append open_handle_neutral)

lemma open_candidate_handle:
  assumes "open_candidate cfg vars matcher callback devnum dev udevp cur = Some (x, u', c', evs)"
  shows "x \<noteq> Goto_next_device \<and>
     open_handle None evs = Some (if x = Continue then None else Some (snd (open_result dev))) \<and>
     (\<forall>r. x = Return r \<longrightarrow> r = LIBUSB_SUCCESS)"
proof -
  obtain r u1 c1 e1 where id: "identify_candidate devnum dev udevp cur = (r, u1, c1, e1)"
    by (metis prod_cases4)
  note h1 = identify_candidate_handle [OF id] and x1 = identify_candidate_exit [OF id]
  show ?thesis
  proof (cases r)
    case (Inl y)
    with assms id h1 x1 show ?thesis
      by (auto simp: open_candidate_def)
  next
    case (Inr udev)
    with h1 x1 have e1: "open_handle None e1 = Some (Some udev)"
      and udev: "udev = snd (open_result dev)" by simp_all
    obtain m e2 where mc: "match_chain 0 matcher c1 = (m, e2)" by (cases "match_chain 0 matcher c1")
    have n2: "\<forall>e\<in>set e2. \<not> handle_event e"
      using match_chain_neutral [of 0 matcher c1] mc by simp
    show ?thesis
    proof (cases m)
      case (Some y)
      with match_chain_exit [of 0 matcher c1] mc
      have y: "y = Goto_next_device \<or> y = Return LIBUSB_SUCCESS \<or> (\<exists>msg. y = Fatal msg)"
        by auto
      from assms id Inr mc Some
      have "x = fst (next_device udev (y, e2))" "evs = e1 @ snd (next_device udev (y, e2))"
        by (simp_all add: open_candidate_def)
      with next_device_handle [OF n2 y, of udev] e1 udev show ?thesis
        by (simp add: open_handle_append)
    next
      case None
      with assms id Inr mc obtain z e3 where
        cd: "claim_and_discover cfg vars callback devnum dev udev c1 = Some (z, e3)" and
        x: "x = fst (next_device udev (z, e3))" and
        evs: "evs = e1 @ e2 @ snd (next_device udev (z, e3))"
        by (auto simp: open_candidate_def split: option.splits)
      from claim_and_discover_exit [OF cd]
      have z: "z = Goto_next_device \<or> z = Return LIBUSB_SUCCESS \<or> (\<exists>msg. z = Fatal msg)"
        by auto
      from next_device_handle [OF claim_and_discover_neutral [OF cd] z, of udev] e1 n2 x evs udev
      show ?thesis
        by (simp add: open_handle_append open_handle_neutral)
    qed
  qed
qed

lemma open_loop_handle:
  "open_loop cfg vars matcher callback devnum devs udevp cur = Some (out, u', c', evs) \<Longrightarrow>
   open_handle None evs \<noteq> None \<and>
   (out = None \<longrightarrow> open_handle None evs = Some None) \<and>
   (\<forall>r. out = Some (Returned r) \<longrightarrow> r = LIBUSB_SUCCESS)"
proof (induction devs arbitrary: devnum udevp cur out u' c' evs)
  case Nil
  then show ?case by simp
next
  case (Cons dev devs)
  from Cons.prems obtain x u1 c1 e1 where
    oc: "open_candidate cfg vars matcher callback devnum dev udevp cur = Some (x, u1, c1, e1)"
    by (auto split: option.splits)
  note h = open_candidate_handle [OF oc]
  show ?case
  proof (cases x)
    case Continue
    with Cons.prems oc obtain e2 where
      ol: "open_loop cfg vars matcher callback (Suc devnum) devs u1 c1 = Some (out, u', c', e2)"
      and evs: "evs = e1 @ e2"
      by (auto split: option.splits)
    from Cons.IH [OF ol] h Continue evs show ?thesis
      by (simp add: open_handle_append)
  next
    case Goto_next_device
    with h show ?thesis by simp
  next
    case (Return r)
    with Cons.prems oc h show ?thesis by auto
  next
    case (Fatal msg)
    with Cons.prems oc h show ?thesis by auto
  qed
qed

lemma open_handle_start:
  "open_handle (if on_linux cfg then None else udevp)
     ([Libusb_init] @
      (if on_linux cfg then [] else (case udevp of None \<Rightarrow> [] | Some h \<Rightarrow> [Libusb_close h])) @
      [Libusb_get_device_list] @ evs) = open_handle None evs"
  by (simp split: option.splits)

text \<open>
  Claim C10. In every run of \<^verbatim>\<open>nut_libusb_open\<close> the events keep the discipline of
  \<open>open_handle\<close>: no device is opened and no next candidate's descriptor is read while
  a handle is open, and only the open handle is ever closed; so the handle of every
  rejected candidate is closed before the next candidate is examined. When the function
  returns \<^verbatim>\<open>LIBUSB_ERROR_NOT_FOUND\<close>, \<^verbatim>\<open>*udevp\<close> is \<^verbatim>\<open>NULL\<close> and no handle is open at the
  end. (Outside Linux the handle the caller passed in counts as open at the start, and
  it is closed first; on Linux it is left alone.)
\<close>

theorem not_found_closes:
  "open_handle (if on_linux cfg then None else udevp)
     (events_of (nut_libusb_open cfg vars bus udevp curDevice matcher callback)) \<noteq> None \<and>
   (outcome_of (nut_libusb_open cfg vars bus udevp curDevice matcher callback) =
      Some (Returned LIBUSB_ERROR_NOT_FOUND) \<longrightarrow>
    udevp_of (nut_libusb_open cfg vars bus udevp curDevice matcher callback) = Some None \<and>
    open_handle (if on_linux cfg then None else udevp)
      (events_of (nut_libusb_open cfg vars bus udevp curDevice matcher callback)) = Some None)"
proof (cases "libusb_init_ret bus \<noteq> LIBUSB_SUCCESS")
  case True
  then show ?thesis
    by (simp add: nut_libusb_open_def events_of_def outcome_of_def)
next
  case False
  show ?thesis
  proof (cases "open_loop cfg vars matcher callback 0 (device_list bus) udevp curDevice")
    case None
    with False show ?thesis
      by (simp add: nut_libusb_open_def events_of_def outcome_of_def)
  next
    case (Some res)
    then obtain out u1 c1 e1 where
      ol: "open_loop cfg vars matcher callback 0 (device_list bus) udevp curDevice =
        Some (out, u1, c1, e1)"
      by (metis prod_cases4)
    note h = open_loop_handle [OF ol]
    show ?thesis
    proof (cases out)
      case None
      with False ol h open_handle_start [of cfg udevp "e1 @ [Libusb_free_device_list,
          Upsdebugx 2 ''No appropriate HID device found'', Fflush]"]
      show ?thesis
        by (simp add: nut_libusb_open_def events_of_def outcome_of_def udevp_of_def
            open_handle_append)
    next
      case (Some o')
      with False ol h open_handle_start [of cfg udevp e1]
      show ?thesis
        by (auto simp: nut_libusb_open_def events_of_def outcome_of_def udevp_of_def
            libusb_error_defs)
    qed
  qed
qed

theorem not_found_closes_witness:
  "outcome_of (nut_libusb_open detach_build no_vars
     \<lparr>libusb_init_ret = 0, device_list = [example_device 0x463 0x0202, example_device 0x051D 0x0106]\<rparr>
     None stale_record ([] :: unit USBDeviceMatcher_t list) (Some reject_all)) =
     Some (Returned LIBUSB_ERROR_NOT_FOUND) \<and>
   udevp_of (nut_libusb_open detach_build no_vars
     \<lparr>libusb_init_ret = 0, device_list = [example_device 0x463 0x0202, example_device 0x051D 0x0106]\<rparr>
     None stale_record ([] :: unit USBDeviceMatcher_t list) (Some reject_all)) = Some None \<and>
   filter handle_event (events_of (nut_libusb_open detach_build no_vars
     \<lparr>libusb_init_ret = 0, device_list = [example_device 0x463 0x0202, example_device 0x051D 0x0106]\<rparr>
     None stale_record ([] :: unit USBDeviceMatcher_t list) (Some reject_all))) =
     [Libusb_get_device_descriptor 0, Libusb_open 0 (Some 7), Libusb_close 7,
      Libusb_get_device_descriptor 1, Libusb_open 1 (Some 7), Libusb_close 7]"
  using not_found_closes [of detach_build None no_vars
     "\<lparr>libusb_init_ret = 0, device_list = [example_device 0x463 0x0202, example_device 0x051D 0x0106]\<rparr>"
     stale_record "[] :: unit USBDeviceMatcher_t list" "Some reject_all"]
  by (simp add: model_defs example_defs scan_extra.simps libusb_request_defs libusb_error_defs
      numeral_3_eq_3)

end
